theory Spec2Isabelle
  imports Complex_Main
begin

section \<open>Data model\<close>

text \<open>
  Tensors of the training script are modelled as nested lists over \<open>real\<close>: a score
  vector of shape (batch) is a \<open>real list\<close>, a latent batch of shape (batch, latent_dim)
  a \<open>real list list\<close>, an audio batch of shape (batch, time, channel) a
  \<open>real list list list\<close>. The script computes in 32-bit floating point. The model
  computes the losses and the networks on \<open>real\<close>, exactly, so an equation between
  those values is one of exact arithmetic and holds in the script up to rounding; the
  interpolation of the gradient penalty, whose end points are compared with its operands,
  is computed with the rounding of every operation (\<open>float32\<close> below).
\<close>

type_synonym tensor1 = "real list"
type_synonym tensor2 = "real list list"
type_synonym tensor3 = "real list list list"

text \<open>
  The exceptions that the modelled code can raise. \<open>NameError\<close> and
  \<open>UnboundLocalError\<close> carry the name that failed to resolve; \<open>TFShapeError\<close>
  stands for the error TensorFlow raises on an ill-shaped argument.
\<close>

datatype error =
    NotImplementedError
  | NameError string
  | UnboundLocalError string
  | AssertionError
  | IndexError
  | TFShapeError

text \<open>The command-line namespace \<open>args\<close> (the fields the training path reads).\<close>

record args =
  wavegan_loss :: string
  train_batch_size :: nat
  num_categ :: nat
  wavegan_latent_dim :: nat
  data_slice_len :: nat
  data_num_channels :: nat
  wavegan_kernel_len :: nat
  wavegan_dim :: nat
  wavegan_batchnorm :: bool
  wavegan_genr_upsample :: string
  wavegan_genr_pp :: bool
  wavegan_genr_pp_len :: nat
  wavegan_disc_phaseshuffle :: nat
  num_epoch :: nat

section \<open>Latent sampling (train, lines 261-271)\<close>

text \<open>
  The random source is a stream of raw draws from the half-open unit interval; an
  operation that draws \<open>n\<close> numbers returns the stream advanced by \<open>n\<close>.
\<close>

type_synonym rng = "nat \<Rightarrow> real"

definition unit_draws :: "rng \<Rightarrow> bool" where
  "unit_draws rng \<longleftrightarrow> (\<forall>k. 0 \<le> rng k \<and> rng k < 1)"

text \<open>\<open>tf.random.uniform((rows, cols), minval, maxval)\<close>; a negative dimension is refused.\<close>

definition random_uniform :: "rng \<Rightarrow> int \<Rightarrow> int \<Rightarrow> real \<Rightarrow> real \<Rightarrow> error + (tensor2 \<times> rng)" where
  "random_uniform rng rows cols minval maxval =
     (if rows < 0 \<or> cols < 0 then Inl TFShapeError
      else let r = nat rows; c = nat cols in
        Inr (map (\<lambda>i. map (\<lambda>j. minval + rng (i * c + j) * (maxval - minval)) [0..<c]) [0..<r],
             \<lambda>k. rng (k + r * c)))"

text \<open>
  \<open>tf.keras.backend.random_bernoulli(shape, p)\<close>: one where a uniform draw is at most
  \<open>p\<close>, zero elsewhere.
\<close>

definition random_bernoulli :: "rng \<Rightarrow> int \<Rightarrow> int \<Rightarrow> real \<Rightarrow> error + (tensor2 \<times> rng)" where
  "random_bernoulli rng rows cols p =
     (case random_uniform rng rows cols 0 1 of
        Inl e \<Rightarrow> Inl e
      | Inr (u, rng') \<Rightarrow> Inr (map (map (\<lambda>v. if v \<le> p then 1 else 0)) u, rng'))"

text \<open>\<open>tf.concat([a, b], 1)\<close> on two matrices: the batch dimensions must agree.\<close>

definition concat_axis1 :: "tensor2 \<Rightarrow> tensor2 \<Rightarrow> error + tensor2" where
  "concat_axis1 a b =
     (if length a = length b then Inr (map (\<lambda>(ra, rb). ra @ rb) (zip a b)) else Inl TFShapeError)"

text \<open>The three statements that build \<open>z\<close>: \<open>categ\<close>, \<open>uniform\<close>, and their concatenation.\<close>

definition sample_z :: "args \<Rightarrow> rng \<Rightarrow> error + (tensor2 \<times> rng)" where
  "sample_z a rng =
     (case random_bernoulli rng (int (train_batch_size a)) (int (num_categ a)) (1/2) of
        Inl e \<Rightarrow> Inl e
      | Inr (categ, rng1) \<Rightarrow>
          (case random_uniform rng1 (int (train_batch_size a))
                  (int (wavegan_latent_dim a) - int (num_categ a)) (-1) 1 of
             Inl e \<Rightarrow> Inl e
           | Inr (uniform, rng2) \<Rightarrow>
               (case concat_axis1 categ uniform of
                  Inl e \<Rightarrow> Inl e
                | Inr z \<Rightarrow> Inr (z, rng2))))"


section \<open>Elementary tensor operations\<close>

definition bind_err :: "error + 'a \<Rightarrow> ('a \<Rightarrow> error + 'b) \<Rightarrow> error + 'b" where
  "bind_err m f = (case m of Inl e \<Rightarrow> Inl e | Inr x \<Rightarrow> f x)"

text \<open>
  \<open>tf.reduce_mean\<close> over all elements. On an empty tensor TensorFlow yields NaN; here the
  quotient by zero is \<open>0\<close>, so statements about means are made for non-empty batches.
\<close>

definition reduce_mean :: "real list \<Rightarrow> real" where
  "reduce_mean xs = sum_list xs / real (length xs)"

definition sigmoid :: "real \<Rightarrow> real" where
  "sigmoid v = 1 / (1 + exp (- v))"

text \<open>
  \<open>tf.nn.sigmoid_cross_entropy_with_logits\<close>, element-wise, by the formula TensorFlow
  documents and computes: \<open>max(x, 0) - x * z + log(1 + exp(-abs(x)))\<close> for logit \<open>x\<close>
  and label \<open>z\<close>. Logits and labels must have the same shape.
\<close>

definition sigmoid_ce :: "real \<Rightarrow> real \<Rightarrow> real" where
  "sigmoid_ce z x = max x 0 - x * z + ln (1 + exp (- \<bar>x\<bar>))"

definition sigmoid_cross_entropy_with_logits :: "real list \<Rightarrow> real list \<Rightarrow> error + real list" where
  "sigmoid_cross_entropy_with_logits labels logits =
     (if length labels = length logits
      then Inr (map (\<lambda>(z, x). sigmoid_ce z x) (zip labels logits))
      else Inl TFShapeError)"

definition sigmoid_cross_entropy_with_logits2 :: "tensor2 \<Rightarrow> tensor2 \<Rightarrow> error + tensor2" where
  "sigmoid_cross_entropy_with_logits2 labels logits =
     (if map length labels = map length logits
      then Inr (map (\<lambda>(zs, xs). map (\<lambda>(z, x). sigmoid_ce z x) (zip zs xs)) (zip labels logits))
      else Inl TFShapeError)"

definition relu :: "tensor3 \<Rightarrow> tensor3" where
  "relu t = map (map (map (max 0))) t"

definition lrelu :: "tensor3 \<Rightarrow> real \<Rightarrow> tensor3" where
  "lrelu inputs alpha = map (map (map (\<lambda>v. max (alpha * v) v))) inputs"

definition shape3 :: "tensor3 \<Rightarrow> (nat \<times> nat \<times> nat) option" where
  "shape3 t =
     (case t of
        [] \<Rightarrow> None
      | e # _ \<Rightarrow>
          (case e of
             [] \<Rightarrow> None
           | r # _ \<Rightarrow>
               (if (\<forall>e' \<in> set t. length e' = length e \<and> (\<forall>r' \<in> set e'. length r' = length r))
                then Some (length t, length e, length r) else None)))"

text \<open>
  Rounding to 32-bit floating point (IEEE 754 binary32: 24 significant bits, exponents
  from -126, round to nearest, ties to even). \<open>pow2 e\<close> is \<open>2\<close> to the integer power
  \<open>e\<close>; \<open>float32 r\<close> is the float nearest to \<open>r\<close>: with \<open>e\<close> the binary exponent of
  \<open>r\<close> (that of the least normal number below it), \<open>r\<close> is rounded to a multiple of
  \<open>pow2 (e - 23)\<close>. Overflow to infinity is not modelled: the definition is that of
  results of magnitude below \<open>pow2 128\<close>.
\<close>

definition pow2 :: "int \<Rightarrow> real" where
  "pow2 e = (if 0 \<le> e then 2 ^ nat e else 1 / 2 ^ nat (- e))"

definition round_half_even :: "real \<Rightarrow> int" where
  "round_half_even q =
     (let f = \<lfloor>q\<rfloor> in
      if q - of_int f < 1/2 then f
      else if 1/2 < q - of_int f then f + 1
      else if even f then f else f + 1)"

definition float32 :: "real \<Rightarrow> real" where
  "float32 r =
     (if r = 0 then 0
      else let e = max \<lfloor>log 2 \<bar>r\<bar>\<rfloor> (- 126)
           in of_int (round_half_even (r / pow2 (e - 23))) * pow2 (e - 23))"

section \<open>Network parameters and the layer library\<close>

text \<open>
  A trainable variable is a shape with its elements in row-major order. A model owns a
  list of variables (\<open>model.variables\<close>).
\<close>

record variable =
  shape :: "nat list"
  elems :: "real list"

text \<open>
  The Keras layers are library code and enter as parameters. Each is a function of the
  layer's hyper-parameters as the source passes them, the position of the layer inside its
  model, the model's variables, and one example of the batch (the models are called
  without the training flag, so every layer acts on each example independently).
  \<open>Dense1\<close> is \<open>Dense(1)(output)[:, 0]\<close>, the single unit of a one-unit dense layer.
  The arguments of \<open>Conv1D\<close> are filters, kernel size, stride and \<open>use_bias\<close>.
  \<open>Conv2DTranspose\<close> includes the \<open>expand_dims\<close> before and the \<open>[:, 0]\<close> after it.
\<close>

record keras =
  Dense :: "nat \<Rightarrow> nat \<Rightarrow> variable list \<Rightarrow> tensor1 \<Rightarrow> tensor1"
  Dense1 :: "nat \<Rightarrow> variable list \<Rightarrow> tensor1 \<Rightarrow> real"
  Conv1D :: "nat \<Rightarrow> nat \<Rightarrow> nat \<Rightarrow> bool \<Rightarrow> nat \<Rightarrow> variable list \<Rightarrow> tensor2 \<Rightarrow> tensor2"
  Conv2DTranspose :: "nat \<Rightarrow> nat \<Rightarrow> nat \<Rightarrow> nat \<Rightarrow> variable list \<Rightarrow> tensor2 \<Rightarrow> tensor2"
  BatchNormalization :: "nat \<Rightarrow> variable list \<Rightarrow> tensor2 \<Rightarrow> tensor2"

section \<open>cinfowavegan.py\<close>

text \<open>Nearest-neighbour resize of one example from \<open>w\<close> to \<open>w * stride\<close> time steps.\<close>

definition resize_nearest :: "nat \<Rightarrow> tensor2 \<Rightarrow> tensor2" where
  "resize_nearest stride x = concat (map (replicate stride) x)"

definition conv1d_transpose ::
  "keras \<Rightarrow> nat \<Rightarrow> variable list \<Rightarrow> tensor3 \<Rightarrow> nat \<Rightarrow> nat \<Rightarrow> nat \<Rightarrow> string \<Rightarrow> error + tensor3" where
  "conv1d_transpose K lid vars inputs filters kernel_width stride upsample =
     (if upsample = ''zeros'' then
        Inr (map (Conv2DTranspose K filters kernel_width stride lid vars) inputs)
      else if upsample = ''nn'' then
        Inr (map (\<lambda>x. Conv1D K filters kernel_width 1 True lid vars (resize_nearest stride x)) inputs)
      else Inl NotImplementedError)"

text \<open>\<open>tf.reshape(output, [batch_size, 16, n])\<close>: every row must hold \<open>16 * n\<close> elements.\<close>

definition reshape_16 :: "nat \<Rightarrow> tensor2 \<Rightarrow> error + tensor3" where
  "reshape_16 n output =
     (if \<forall>row \<in> set output. length row = 16 * n
      then Inr (map (\<lambda>row. map (\<lambda>i. take n (drop (i * n) row)) [0..<16]) output)
      else Inl TFShapeError)"

text \<open>
  \<open>WaveGANGenerator\<close>. \<open>update_ops\<close> is the length of the update-op collection that the
  function reads when \<open>train\<close> and \<open>use_batchnorm\<close> are both set.
\<close>

definition WaveGANGenerator ::
  "keras \<Rightarrow> nat \<Rightarrow> variable list \<Rightarrow> tensor2 \<Rightarrow> nat \<Rightarrow> nat \<Rightarrow> nat \<Rightarrow> nat \<Rightarrow> bool \<Rightarrow> string \<Rightarrow> bool
     \<Rightarrow> error + tensor3" where
  "WaveGANGenerator K update_ops vars z slice_len nch kernel_len dim' use_batchnorm upsample train =
     (if slice_len \<notin> {16384, 32768, 65536} then Inl AssertionError
      else
        let batchnorm = (\<lambda>lid x. if use_batchnorm then map (BatchNormalization K lid vars) x else x);
            dim_mul = (if slice_len = 16384 then 16 else 32 :: nat)
        in
        bind_err (reshape_16 (dim' * dim_mul) (map (Dense K (4 * 4 * dim' * dim_mul) 0 vars) z)) (\<lambda>output.
        let output = relu (batchnorm 0 output);
            dim_mul = dim_mul div 2
        in
        bind_err (conv1d_transpose K 1 vars output (dim' * dim_mul) kernel_len 4 upsample) (\<lambda>output.
        let output = relu (batchnorm 1 output);
            dim_mul = dim_mul div 2
        in
        bind_err (conv1d_transpose K 2 vars output (dim' * dim_mul) kernel_len 4 upsample) (\<lambda>output.
        let output = relu (batchnorm 2 output);
            dim_mul = dim_mul div 2
        in
        bind_err (conv1d_transpose K 3 vars output (dim' * dim_mul) kernel_len 4 upsample) (\<lambda>output.
        let output = relu (batchnorm 3 output);
            dim_mul = dim_mul div 2
        in
        bind_err (conv1d_transpose K 4 vars output (dim' * dim_mul) kernel_len 4 upsample) (\<lambda>output.
        let output = relu (batchnorm 4 output)
        in
        bind_err
          (if slice_len = 16384 then
             bind_err (conv1d_transpose K 5 vars output nch kernel_len 4 upsample) (\<lambda>output.
             Inr (map (map (map tanh)) output))
           else if slice_len = 32768 then
             bind_err (conv1d_transpose K 5 vars output dim' kernel_len 4 upsample) (\<lambda>output.
             let output = relu (batchnorm 5 output) in
             bind_err (conv1d_transpose K 6 vars output nch kernel_len 2 upsample) (\<lambda>output.
             Inr (map (map (map tanh)) output)))
           else if slice_len = 65536 then
             bind_err (conv1d_transpose K 5 vars output dim' kernel_len 4 upsample) (\<lambda>output.
             let output = relu (batchnorm 5 output) in
             bind_err (conv1d_transpose K 6 vars output nch kernel_len 4 upsample) (\<lambda>output.
             Inr (map (map (map tanh)) output)))
           else Inr output)
          (\<lambda>output.
             if train \<and> use_batchnorm then
               (if slice_len = 16384
                then (if update_ops = 10 then Inr output else Inl AssertionError)
                else (if update_ops = 12 then Inr output else Inl AssertionError))
             else Inr output)))))))"

text \<open>
  \<open>apply_phaseshuffle\<close> with reflective padding. \<open>u\<close> is the raw unit draw behind the
  integer \<open>phase\<close>, uniform on \<open>-rad .. rad\<close>. Reflective padding needs a pad shorter than
  the padded axis.
\<close>

definition apply_phaseshuffle :: "tensor3 \<Rightarrow> nat \<Rightarrow> real \<Rightarrow> error + tensor3" where
  "apply_phaseshuffle x rad u =
     (let phase = \<lfloor>u * real (2 * rad + 1)\<rfloor> - int rad;
          pad_l = nat (max phase 0);
          pad_r = nat (max (- phase) 0);
          phase_start = pad_r
      in if \<forall>e \<in> set x. pad_l < length e \<and> pad_r < length e
         then Inr (map (\<lambda>e. take (length e)
                         (drop phase_start (rev (take pad_l (tl e)) @ e @ take pad_r (tl (rev e))))) x)
         else Inl TFShapeError)"

text \<open>
  \<open>WaveGANDiscriminator\<close>. \<open>slice_len\<close> is the static length \<open>x.get_shape()[1]\<close>;
  \<open>u\<close> gives the unit draw of each of the four phase-shuffle sites.
\<close>

definition WaveGANDiscriminator ::
  "keras \<Rightarrow> variable list \<Rightarrow> (nat \<Rightarrow> real) \<Rightarrow> nat \<Rightarrow> tensor3 \<Rightarrow> nat \<Rightarrow> nat \<Rightarrow> bool \<Rightarrow> nat
     \<Rightarrow> error + tensor1" where
  "WaveGANDiscriminator K vars u slice_len x kernel_len dim' use_batchnorm phaseshuffle_rad =
     (let batchnorm = (\<lambda>lid x. if use_batchnorm then map (BatchNormalization K lid vars) x else x);
          phaseshuffle = (\<lambda>site x. if phaseshuffle_rad > 0
                                     then apply_phaseshuffle x phaseshuffle_rad (u site) else Inr x);
          output = x;
          output = map (Conv1D K dim' kernel_len 4 True 0 vars) output;
          output = lrelu output 0.2
      in
      bind_err (phaseshuffle 0 output) (\<lambda>output.
      let output = map (Conv1D K (dim' * 2) kernel_len 4 True 1 vars) output;
          output = batchnorm 1 output;
          output = lrelu output 0.2
      in
      bind_err (phaseshuffle 1 output) (\<lambda>output.
      let output = map (Conv1D K (dim' * 4) kernel_len 4 True 2 vars) output;
          output = batchnorm 2 output;
          output = lrelu output 0.2
      in
      bind_err (phaseshuffle 2 output) (\<lambda>output.
      let output = map (Conv1D K (dim' * 8) kernel_len 4 True 3 vars) output;
          output = batchnorm 3 output;
          output = lrelu output 0.2
      in
      bind_err (phaseshuffle 3 output) (\<lambda>output.
      let output = map (Conv1D K (dim' * 16) kernel_len 4 True 4 vars) output;
          output = batchnorm 4 output;
          output = lrelu output 0.2;
          output = (if slice_len = 32768 then
                      lrelu (batchnorm 5 (map (Conv1D K (dim' * 32) kernel_len 4 True 5 vars) output)) 0.2
                    else if slice_len = 65536 then
                      lrelu (batchnorm 5 (map (Conv1D K (dim' * 32) kernel_len 4 True 5 vars) output)) 0.2
                    else output);
          output = map concat output;
          output = map (Dense1 K 6 vars) output;
          output = map sigmoid output
      in Inr output)))))"

definition WaveGANQ ::
  "keras \<Rightarrow> variable list \<Rightarrow> (nat \<Rightarrow> real) \<Rightarrow> nat \<Rightarrow> tensor3 \<Rightarrow> nat \<Rightarrow> nat \<Rightarrow> bool \<Rightarrow> nat \<Rightarrow> nat
     \<Rightarrow> error + tensor2" where
  "WaveGANQ K vars u slice_len x kernel_len dim' use_batchnorm phaseshuffle_rad num_categ' =
     (let batchnorm = (\<lambda>lid x. if use_batchnorm then map (BatchNormalization K lid vars) x else x);
          phaseshuffle = (\<lambda>site x. if phaseshuffle_rad > 0
                                     then apply_phaseshuffle x phaseshuffle_rad (u site) else Inr x);
          output = x;
          output = map (Conv1D K dim' kernel_len 4 True 0 vars) output;
          output = lrelu output 0.2
      in
      bind_err (phaseshuffle 0 output) (\<lambda>output.
      let output = map (Conv1D K (dim' * 2) kernel_len 4 True 1 vars) output;
          output = batchnorm 1 output;
          output = lrelu output 0.2
      in
      bind_err (phaseshuffle 1 output) (\<lambda>output.
      let output = map (Conv1D K (dim' * 4) kernel_len 4 True 2 vars) output;
          output = batchnorm 2 output;
          output = lrelu output 0.2
      in
      bind_err (phaseshuffle 2 output) (\<lambda>output.
      let output = map (Conv1D K (dim' * 8) kernel_len 4 True 3 vars) output;
          output = batchnorm 3 output;
          output = lrelu output 0.2
      in
      bind_err (phaseshuffle 3 output) (\<lambda>output.
      let output = map (Conv1D K (dim' * 16) kernel_len 4 True 4 vars) output;
          output = batchnorm 4 output;
          output = lrelu output 0.2;
          output = (if slice_len = 32768 then
                      lrelu (batchnorm 5 (map (Conv1D K (dim' * 32) kernel_len 4 True 5 vars) output)) 0.2
                    else if slice_len = 65536 then
                      lrelu (batchnorm 5 (map (Conv1D K (dim' * 32) kernel_len 4 True 5 vars) output)) 0.2
                    else output);
          output = map concat output;
          Qoutput = map (Dense K num_categ' 6 vars) output;
          Qoutput = map (map sigmoid) Qoutput
      in Inr Qoutput)))))"


section \<open>train_fiwgan.py: the loss engine\<close>

text \<open>
  The gradient tape is library code and enters as a parameter: \<open>tape target sources\<close>
  is the list \<open>tape.gradient(target, sources)\<close>, one gradient per source, each of the
  shape of its source. Targets and sources are named after the tensors of the script.
\<close>

datatype model_id = M_G_z_generator | M_D_x_discriminator | M_waveganq | M_inter_discriminator

datatype target = T_D_interp | T_D_G_z_loss | T_D_loss | T_Q_loss

datatype source = Variable model_id nat | Interpolates

type_synonym tape = "target \<Rightarrow> source list \<Rightarrow> variable list"

definition variables_of :: "model_id \<Rightarrow> variable list \<Rightarrow> source list" where
  "variables_of m vars = map (Variable m) [0..<length vars]"

text \<open>
  \<open>tf.reduce_sum(t, axis=[1, 2])\<close>: the tensor needs at least three axes; the result keeps
  axis 0 and the axes after the third.
\<close>

definition reduce_sum_axis12 :: "variable \<Rightarrow> error + real list" where
  "reduce_sum_axis12 t =
     (case shape t of
        a # b # c # rest \<Rightarrow>
          let R = prod_list rest in
          Inr (map (\<lambda>(i, r). sum_list (map (\<lambda>j. elems t ! ((i * (b * c) + j) * R + r)) [0..<b * c]))
                 (List.product [0..<a] [0..<R]))
      | _ \<Rightarrow> Inl TFShapeError)"

definition square :: "variable \<Rightarrow> variable" where
  "square t = t\<lparr>elems := map (\<lambda>v. v * v) (elems t)\<rparr>"

text \<open>
  The interpolation of the wgan-gp branch: \<open>differences = G_z - x\<close> and
  \<open>interpolates = x + (alpha * differences)\<close>, with one \<open>alpha\<close> per batch element
  (shape \<open>[batch, 1, 1]\<close>) broadcast over time and channel. The three element-wise
  operations are those of float32 tensors: the subtraction, the product and the sum are
  each rounded. The model covers operands of one common shape, the shape \<open>train\<close>
  asserts for \<open>x\<close>, and refuses the rest.
\<close>

definition interpolate :: "tensor3 \<Rightarrow> tensor3 \<Rightarrow> real list \<Rightarrow> tensor3" where
  "interpolate x G_z alpha =
     (let differences = map2 (map2 (map2 (\<lambda>g v. float32 (g - v)))) G_z x
      in map2 (\<lambda>(al, xe) de. map2 (map2 (\<lambda>v d. float32 (v + float32 (al * d)))) xe de)
           (zip alpha x) differences)"

text \<open>
  The local names that a branch of \<open>compute_loss\<close> has bound when it ends: the three
  losses, and the scores \<open>D_interp\<close> of the interpolated batch, which only the wgan-gp
  branch binds.
\<close>

record loss_locals =
  D_G_z_loss :: real
  D_loss :: real
  Q_loss :: "real option"
  D_interp :: "tensor1 option"

text \<open>
  The \<open>if\<close>/\<open>elif\<close> chain of \<open>compute_loss\<close>. The wgan branch reads the name
  \<open>D_vars\<close>, which neither the function nor the module binds. \<open>alpha\<close> is drawn from the
  random source.
\<close>

definition compute_loss_branch ::
  "args \<Rightarrow> rng \<Rightarrow> tensor1 \<Rightarrow> tensor1 \<Rightarrow> tensor3 \<Rightarrow> tensor3 \<Rightarrow> (tensor3 \<Rightarrow> error + tensor1)
     \<Rightarrow> variable list \<Rightarrow> tape \<Rightarrow> tensor2 \<Rightarrow> tensor2 \<Rightarrow> error + loss_locals" where
  "compute_loss_branch a rng D_G_z D_x x G_z inter_discriminator inter_variables tape z Q_G_z =
     (if wavegan_loss a = ''dcgan'' then
        let fake = replicate (train_batch_size a) 0;
            real' = replicate (train_batch_size a) 1
        in
        bind_err (sigmoid_cross_entropy_with_logits real' D_G_z) (\<lambda>ce_g.
        let D_G_z_loss = reduce_mean ce_g in
        bind_err (sigmoid_cross_entropy_with_logits fake D_G_z) (\<lambda>ce_fake.
        let D_loss = reduce_mean ce_fake in
        bind_err (sigmoid_cross_entropy_with_logits real' D_x) (\<lambda>ce_real.
        let D_loss = D_loss + reduce_mean ce_real;
            D_loss = D_loss / 2
        in Inr \<lparr>D_G_z_loss = D_G_z_loss, D_loss = D_loss, Q_loss = None, D_interp = None\<rparr>)))
      else if wavegan_loss a = ''lsgan'' then
        let D_G_z_loss = reduce_mean (map (\<lambda>v. (v - 1)\<^sup>2) D_G_z);
            D_loss = reduce_mean (map (\<lambda>v. (v - 1)\<^sup>2) D_x);
            D_loss = D_loss + reduce_mean (map (\<lambda>v. v\<^sup>2) D_G_z);
            D_loss = D_loss / 2
        in Inr \<lparr>D_G_z_loss = D_G_z_loss, D_loss = D_loss, Q_loss = None, D_interp = None\<rparr>
      else if wavegan_loss a = ''wgan'' then
        let D_G_z_loss = - reduce_mean D_G_z;
            D_loss = reduce_mean D_G_z - reduce_mean D_x
        in Inl (NameError ''D_vars'')
      else if wavegan_loss a = ''wgan-gp'' then
        let z_q_loss = map (take (num_categ a)) z;
            q_q_loss = map (take (num_categ a)) Q_G_z
        in
        bind_err (sigmoid_cross_entropy_with_logits2 z_q_loss q_q_loss) (\<lambda>q_sigmoid.
        let Q_loss = reduce_mean (concat q_sigmoid);
            D_G_z_loss = - reduce_mean D_G_z;
            D_loss = reduce_mean D_G_z - reduce_mean D_x;
            alpha = map (\<lambda>i. 0 + rng i * (1 - 0)) [0..<train_batch_size a]
        in
        if map (map length) G_z \<noteq> map (map length) x \<or> length alpha \<noteq> length x then Inl TFShapeError
        else
        let interpolates = interpolate x G_z alpha in
        bind_err (inter_discriminator interpolates) (\<lambda>D_interp.
        let LAMBDA = 10;
            gradients = tape T_D_interp (variables_of M_inter_discriminator inter_variables)
        in
        (case gradients of
           [] \<Rightarrow> Inl IndexError
         | gradients0 # _ \<Rightarrow>
             bind_err (reduce_sum_axis12 (square gradients0)) (\<lambda>sq_sums.
             let slopes = map sqrt sq_sums;
                 gradient_penalty = reduce_mean (map (\<lambda>s. (s - 1)\<^sup>2) slopes);
                 D_loss = D_loss + LAMBDA * gradient_penalty
             in Inr \<lparr>D_G_z_loss = D_G_z_loss, D_loss = D_loss, Q_loss = Some Q_loss,
                     D_interp = Some D_interp\<rparr>))))
      else Inl NotImplementedError)"

text \<open>
  \<open>compute_loss\<close>: the chain, then \<open>return D_G_z_loss, D_loss, Q_loss\<close>. \<open>Q_loss\<close> is a
  local name of the function, so reading it unbound raises \<open>UnboundLocalError\<close>.
\<close>

definition compute_loss ::
  "args \<Rightarrow> rng \<Rightarrow> tensor1 \<Rightarrow> tensor1 \<Rightarrow> tensor3 \<Rightarrow> tensor3 \<Rightarrow> (tensor3 \<Rightarrow> error + tensor1)
     \<Rightarrow> variable list \<Rightarrow> tape \<Rightarrow> tensor2 \<Rightarrow> tensor2 \<Rightarrow> error + (real \<times> real \<times> real)" where
  "compute_loss a rng D_G_z D_x x G_z inter_discriminator inter_variables tape z Q_G_z =
     bind_err (compute_loss_branch a rng D_G_z D_x x G_z inter_discriminator inter_variables tape z Q_G_z)
       (\<lambda>l. case Q_loss l of
               None \<Rightarrow> Inl (UnboundLocalError ''Q_loss'')
             | Some q \<Rightarrow> Inr (D_G_z_loss l, D_loss l, q))"


section \<open>train_fiwgan.py: the training loop\<close>

datatype optimizer_config = Adam real real real | RMSprop real

text \<open>An optimizer object: its configuration and its accumulated slot state.\<close>

record optimizer =
  config :: optimizer_config
  slots :: "variable list"

text \<open>
  The optimizer selection of \<open>train\<close>: \<open>G_opt\<close>, \<open>D_opt\<close>, and \<open>Q_opt\<close>, which only the
  wgan-gp branch binds. Adam's second moment rate defaults to \<open>0.999\<close>.
\<close>

definition new_optimizer :: "optimizer_config \<Rightarrow> optimizer" where
  "new_optimizer c = \<lparr>config = c, slots = []\<rparr>"

definition make_optimizers :: "args \<Rightarrow> error + (optimizer \<times> optimizer \<times> optimizer option)" where
  "make_optimizers a =
     (if wavegan_loss a = ''dcgan'' then
        Inr (new_optimizer (Adam (2 / 10^4) (1/2) (999 / 1000)),
             new_optimizer (Adam (2 / 10^4) (1/2) (999 / 1000)), None)
      else if wavegan_loss a = ''lsgan'' then
        Inr (new_optimizer (RMSprop (1 / 10^4)), new_optimizer (RMSprop (1 / 10^4)), None)
      else if wavegan_loss a = ''wgan'' then
        Inr (new_optimizer (RMSprop (5 / 10^5)), new_optimizer (RMSprop (5 / 10^5)), None)
      else if wavegan_loss a = ''wgan-gp'' then
        Inr (new_optimizer (Adam (1 / 10^4) (1/2) (9/10)),
             new_optimizer (Adam (1 / 10^4) (1/2) (9/10)),
             Some (new_optimizer (RMSprop (1 / 10^4))))
      else Inl NotImplementedError)"

text \<open>
  The state that \<open>train\<close> mutates: the variables of the four Keras models it builds
  (\<open>inter_discriminator\<close> comes from a second call of \<open>WaveGANDiscriminator\<close> and owns
  variables of its own), the optimizers, the random source, the scalar summaries written
  so far, and the last saved models.
\<close>

record train_state =
  G_z_generator :: "variable list"
  D_x_discriminator :: "variable list"
  waveganq :: "variable list"
  inter_discriminator :: "variable list"
  G_opt :: optimizer
  D_opt :: optimizer
  Q_opt :: "optimizer option"
  rng_state :: rng
  scalars :: "(string \<times> real \<times> nat) list"
  saved :: "(variable list \<times> variable list \<times> variable list) option"

text \<open>
  What the script takes from its libraries and its data: the layers, the length of the
  update-op collection, the initial variables of each model, the phase-shuffle draws
  (by model and site: \<open>tf.random.uniform\<close> runs when a model is built, and the phase it
  returns is a constant of that model from then on), the number of file-name batches,
  the decoded batch of an epoch and index, the tape recorded by a step, and the
  optimizers' update rule (per variable) and slot update.
\<close>

record env =
  layers :: keras
  update_ops :: nat
  initial_variables :: "model_id \<Rightarrow> variable list"
  phase_draws :: "model_id \<Rightarrow> nat \<Rightarrow> real"
  name_batch_set_len :: nat
  decode_extract_and_batch :: "nat \<Rightarrow> nat \<Rightarrow> tensor3"
  record_tape :: "train_state \<Rightarrow> tensor2 \<Rightarrow> tensor3 \<Rightarrow> tape"
  update_rule :: "optimizer \<Rightarrow> nat \<Rightarrow> variable \<Rightarrow> variable \<Rightarrow> variable"
  update_slots :: "optimizer \<Rightarrow> variable list \<Rightarrow> optimizer"

text \<open>
  \<open>opt.apply_gradients(zip(grads, vars))\<close>: the variables paired with a gradient are
  updated in place, the others are left as they are.
\<close>

definition apply_gradients :: "env \<Rightarrow> optimizer \<Rightarrow> variable list \<Rightarrow> variable list \<Rightarrow> optimizer \<times> variable list" where
  "apply_gradients E opt grads vars =
     (update_slots E opt grads,
      map (\<lambda>(i, g, v). update_rule E opt i g v) (zip [0..<length vars] (zip grads vars))
        @ drop (length grads) vars)"

text \<open>The generator model: \<open>WaveGANGenerator\<close>, then the optional post-processing filter.\<close>

definition G_z_generator_call :: "env \<Rightarrow> args \<Rightarrow> variable list \<Rightarrow> tensor2 \<Rightarrow> error + tensor3" where
  "G_z_generator_call E a vars z =
     bind_err (WaveGANGenerator (layers E) (update_ops E) vars z (data_slice_len a) (data_num_channels a)
                 (wavegan_kernel_len a) (wavegan_dim a) (wavegan_batchnorm a) (wavegan_genr_upsample a) True)
       (\<lambda>G_z_output.
          if wavegan_genr_pp a
          then Inr (map (Conv1D (layers E) 1 (wavegan_genr_pp_len a) 1 False 7 vars) G_z_output)
          else Inr G_z_output)"

definition discriminator_call :: "env \<Rightarrow> args \<Rightarrow> variable list \<Rightarrow> (nat \<Rightarrow> real) \<Rightarrow> tensor3 \<Rightarrow> error + tensor1" where
  "discriminator_call E a vars u x =
     WaveGANDiscriminator (layers E) vars u (data_slice_len a) x
       (wavegan_kernel_len a) (wavegan_dim a) (wavegan_batchnorm a) (wavegan_disc_phaseshuffle a)"

definition waveganq_call :: "env \<Rightarrow> args \<Rightarrow> variable list \<Rightarrow> (nat \<Rightarrow> real) \<Rightarrow> tensor3 \<Rightarrow> error + tensor2" where
  "waveganq_call E a vars u x =
     WaveGANQ (layers E) vars u (data_slice_len a) x
       (wavegan_kernel_len a) (wavegan_dim a) (wavegan_batchnorm a) (wavegan_disc_phaseshuffle a)
       (num_categ a)"

text \<open>
  The forward pass of step number \<open>steps\<close>, under the tape: \<open>G_z\<close>, \<open>D_G_z\<close>, \<open>D_x\<close>,
  \<open>Q_G_z\<close> and the call of \<open>compute_loss\<close>, which receives \<open>inter_discriminator\<close>. Both
  \<open>D_G_z\<close> and \<open>D_x\<close> come from \<open>D_x_discriminator\<close>.
\<close>

definition forward_and_loss ::
  "env \<Rightarrow> args \<Rightarrow> nat \<Rightarrow> train_state \<Rightarrow> tensor3 \<Rightarrow> tensor2 \<Rightarrow> rng \<Rightarrow> error + (real \<times> real \<times> real)" where
  "forward_and_loss E a steps st dataset z rng =
     bind_err (G_z_generator_call E a (G_z_generator st) z) (\<lambda>G_z.
     bind_err (discriminator_call E a (D_x_discriminator st) (phase_draws E M_D_x_discriminator) G_z) (\<lambda>D_G_z.
     bind_err (discriminator_call E a (D_x_discriminator st) (phase_draws E M_D_x_discriminator) dataset) (\<lambda>D_x.
     bind_err (waveganq_call E a (waveganq st) (phase_draws E M_waveganq) G_z) (\<lambda>Q_G_z.
     compute_loss a rng D_G_z D_x dataset G_z
       (discriminator_call E a (inter_discriminator st) (phase_draws E M_inter_discriminator))
       (inter_discriminator st) (record_tape E st z dataset) z Q_G_z))))"

text \<open>
  One iteration of the batch loop. The result is the exception raised, if any, and the
  state at that point. A step that computes its losses has drawn \<open>alpha\<close>, one number
  per batch element, after \<open>z\<close>.
\<close>

definition train_step :: "env \<Rightarrow> args \<Rightarrow> nat \<Rightarrow> nat \<Rightarrow> train_state \<Rightarrow> error option \<times> train_state" where
  "train_step E a epoch batch st =
     (let steps = name_batch_set_len E * epoch + batch;
          dataset = decode_extract_and_batch E epoch batch
      in
      if shape3 dataset \<noteq> Some (train_batch_size a, data_slice_len a, data_num_channels a)
      then (Some AssertionError, st)
      else
        (case sample_z a (rng_state st) of
           Inl e \<Rightarrow> (Some e, st)
         | Inr (z, rng1) \<Rightarrow>
             let st = st\<lparr>rng_state := rng1\<rparr>;
                 tape = record_tape E st z dataset
             in
             (case forward_and_loss E a steps st dataset z rng1 of
                Inl e \<Rightarrow> (Some e, st)
              | Inr (G_loss', D_loss', Q_loss') \<Rightarrow>
                  let st = st\<lparr>rng_state := (\<lambda>k. rng1 (k + train_batch_size a))\<rparr>;
                      G_grads = tape T_D_G_z_loss (variables_of M_G_z_generator (G_z_generator st));
                      (G_opt', G_vars) = apply_gradients E (G_opt st) G_grads (G_z_generator st);
                      st = st\<lparr>G_opt := G_opt', G_z_generator := G_vars\<rparr>;
                      D_grads = tape T_D_loss (variables_of M_D_x_discriminator (D_x_discriminator st));
                      (D_opt', D_vars) = apply_gradients E (D_opt st) D_grads (D_x_discriminator st);
                      st = st\<lparr>D_opt := D_opt', D_x_discriminator := D_vars\<rparr>;
                      Q_sources = variables_of M_G_z_generator (G_z_generator st)
                                    @ variables_of M_waveganq (waveganq st);
                      Q_grads = tape T_Q_loss Q_sources
                  in
                  (case Q_opt st of
                     None \<Rightarrow> (Some (UnboundLocalError ''Q_opt''), st)
                   | Some q \<Rightarrow>
                       let (Q_opt', GQ_vars) =
                             apply_gradients E q Q_grads (G_z_generator st @ waveganq st);
                           st = st\<lparr>Q_opt := Some Q_opt',
                                   G_z_generator := take (length (G_z_generator st)) GQ_vars,
                                   waveganq := drop (length (G_z_generator st)) GQ_vars\<rparr>;
                           st = st\<lparr>scalars := scalars st @
                                     [(''Generator_loss'', G_loss', steps),
                                      (''Discriminator_loss'', D_loss', steps),
                                      (''Q_loss'', D_loss', steps)]\<rparr>
                       in (None, st)))))"

fun run_batches :: "env \<Rightarrow> args \<Rightarrow> nat \<Rightarrow> nat list \<Rightarrow> train_state \<Rightarrow> error option \<times> train_state" where
  "run_batches E a epoch [] st = (None, st)"
| "run_batches E a epoch (batch # rest) st =
     (case train_step E a epoch batch st of
        (Some e, st') \<Rightarrow> (Some e, st')
      | (None, st') \<Rightarrow> run_batches E a epoch rest st')"

text \<open>One epoch: the batch loop, then the three models are saved over the last snapshot.\<close>

fun run_epochs :: "env \<Rightarrow> args \<Rightarrow> nat list \<Rightarrow> train_state \<Rightarrow> error option \<times> train_state" where
  "run_epochs E a [] st = (None, st)"
| "run_epochs E a (epoch # rest) st =
     (case run_batches E a epoch [0..<name_batch_set_len E] st of
        (Some e, st') \<Rightarrow> (Some e, st')
      | (None, st') \<Rightarrow>
          run_epochs E a rest
            (st'\<lparr>saved := Some (G_z_generator st', D_x_discriminator st', waveganq st')\<rparr>))"

text \<open>
  Building the four models runs the network functions once on the symbolic inputs, each
  with the phase-shuffle draws of its model; whatever they raise there is raised at
  startup.
\<close>

definition build_models :: "env \<Rightarrow> args \<Rightarrow> error + unit" where
  "build_models E a =
     (let z_input = replicate (train_batch_size a) (replicate (wavegan_latent_dim a) 0);
          x_input = replicate (train_batch_size a)
                      (replicate (data_slice_len a) (replicate (data_num_channels a) 0))
      in
      bind_err (G_z_generator_call E a (initial_variables E M_G_z_generator) z_input) (\<lambda>_.
      bind_err (discriminator_call E a (initial_variables E M_D_x_discriminator)
                  (phase_draws E M_D_x_discriminator) x_input) (\<lambda>_.
      bind_err (waveganq_call E a (initial_variables E M_waveganq)
                  (phase_draws E M_waveganq) x_input) (\<lambda>_.
      bind_err (discriminator_call E a (initial_variables E M_inter_discriminator)
                  (phase_draws E M_inter_discriminator) x_input) (\<lambda>_.
      Inr ())))))"

text \<open>
  \<open>train\<close>. An exception before the epoch loop is a failure at startup; one inside the
  loop stops the run with the state reached.
\<close>

datatype outcome = Startup_failure error | Stopped error train_state | Finished train_state

definition train :: "env \<Rightarrow> args \<Rightarrow> rng \<Rightarrow> outcome" where
  "train E a rng =
     (if name_batch_set_len E = 0 then Startup_failure IndexError
      else
        (case build_models E a of
           Inl e \<Rightarrow> Startup_failure e
         | Inr _ \<Rightarrow>
             (case make_optimizers a of
                Inl e \<Rightarrow> Startup_failure e
              | Inr (g_opt, d_opt, q_opt) \<Rightarrow>
                  (case run_epochs E a [0..<num_epoch a]
                          \<lparr>G_z_generator = initial_variables E M_G_z_generator,
                           D_x_discriminator = initial_variables E M_D_x_discriminator,
                           waveganq = initial_variables E M_waveganq,
                           inter_discriminator = initial_variables E M_inter_discriminator,
                           G_opt = g_opt, D_opt = d_opt, Q_opt = q_opt,
                           rng_state = rng, scalars = [], saved = None\<rparr> of
                     (Some e, st) \<Rightarrow> Stopped e st
                   | (None, st) \<Rightarrow> Finished st))))"


section \<open>The losses as the specification states them\<close>

text \<open>
  The sigmoid cross-entropy \<open>CE(score, label)\<close> of the specification: the negative
  log-likelihood of the label under the probability \<open>sigmoid score\<close>.
\<close>

definition cross_entropy :: "real \<Rightarrow> real \<Rightarrow> real" where
  "cross_entropy label score =
     - label * ln (sigmoid score) - (1 - label) * ln (1 - sigmoid score)"

text \<open>The values of an audio batch lie in \<open>[-1, 1]\<close>.\<close>

definition bounded3 :: "tensor3 \<Rightarrow> bool" where
  "bounded3 t \<longleftrightarrow> (\<forall>e \<in> set t. \<forall>r \<in> set e. \<forall>v \<in> set r. -1 \<le> v \<and> v \<le> 1)"

text \<open>
  The gradient penalty of the specification: the gradient of the interpolated scores
  with respect to the interpolated input, its L2 norm per example over the time and
  channel axes, and the mean of \<open>(norm - 1)\<^sup>2\<close>.
\<close>

definition input_gradient_penalty :: "tape \<Rightarrow> error + real" where
  "input_gradient_penalty tape =
     (case tape T_D_interp [Interpolates] of
        [] \<Rightarrow> Inl IndexError
      | gradient # _ \<Rightarrow>
          bind_err (reduce_sum_axis12 (square gradient)) (\<lambda>sq_sums.
          Inr (reduce_mean (map (\<lambda>norm. (norm - 1)\<^sup>2) (map sqrt sq_sums)))))"

section \<open>A concrete run\<close>

text \<open>
  The configuration of the end-to-end scenarios: batch size 2, latent dimension 4, two
  categorical codes, slices of 16384 samples, one channel, the script's defaults
  elsewhere, phase shuffle off. The loss variant and the post-processing switch are
  left open.
\<close>

definition scenario_args :: "string \<Rightarrow> bool \<Rightarrow> args" where
  "scenario_args loss pp =
     \<lparr>wavegan_loss = loss, train_batch_size = 2, num_categ = 2, wavegan_latent_dim = 4,
      data_slice_len = 16384, data_num_channels = 1, wavegan_kernel_len = 25, wavegan_dim = 64,
      wavegan_batchnorm = False, wavegan_genr_upsample = ''zeros'', wavegan_genr_pp = pp,
      wavegan_genr_pp_len = 512, wavegan_disc_phaseshuffle = 0, num_epoch = 1\<rparr>"

text \<open>
  A small layer library. Every layer with a bias has a zero kernel, so it outputs its
  bias in every unit; the bias is the first element of the model's first variable. The
  bias-free convolution is a filter whose only non-zero tap sits at the output position;
  the tap is the first element of the model's last variable. Batch normalisation is the
  identity.
\<close>

definition bias_of :: "variable list \<Rightarrow> real" where
  "bias_of vars = (case vars of [] \<Rightarrow> 0 | v # _ \<Rightarrow> (case elems v of [] \<Rightarrow> 0 | b # _ \<Rightarrow> b))"

definition tap_of :: "variable list \<Rightarrow> real" where
  "tap_of vars = bias_of (rev vars)"

definition bias_layers :: keras where
  "bias_layers =
     \<lparr>Dense = (\<lambda>units lid vars x. replicate units (bias_of vars)),
      Dense1 = (\<lambda>lid vars x. bias_of vars),
      Conv1D = (\<lambda>filters kernel stride use_bias lid vars x.
                  if use_bias
                  then replicate ((length x + stride - 1) div stride) (replicate filters (bias_of vars))
                  else map (map (\<lambda>v. tap_of vars * v)) x),
      Conv2DTranspose = (\<lambda>filters kernel stride lid vars x.
                  replicate (length x * stride) (replicate filters (bias_of vars))),
      BatchNormalization = (\<lambda>lid vars x. x)\<rparr>"

definition scalar_variable :: "real \<Rightarrow> variable" where
  "scalar_variable v = \<lparr>shape = [1, 1, 1], elems = [v]\<rparr>"

text \<open>
  The environment of the run: one batch of silence per epoch, the generator with bias 1
  and filter tap 3, the discriminator and the code predictor with bias 0, the second
  discriminator with bias 1, a tape that reports the gradient 3 for every variable and
  0 for the interpolated input, and plain gradient descent as the update rule.
\<close>

definition scenario_tape :: tape where
  "scenario_tape target sources =
     map (\<lambda>s. case s of Variable m i \<Rightarrow> scalar_variable 3
                      | Interpolates \<Rightarrow> \<lparr>shape = [2, 16384, 1], elems = replicate (2 * 16384 * 1) 0\<rparr>)
       sources"

definition learning_rate :: "optimizer \<Rightarrow> real" where
  "learning_rate opt = (case config opt of Adam lr b1 b2 \<Rightarrow> lr | RMSprop lr \<Rightarrow> lr)"

definition scenario_env :: env where
  "scenario_env =
     \<lparr>layers = bias_layers,
      update_ops = 0,
      initial_variables = (\<lambda>m. case m of
          M_G_z_generator \<Rightarrow> [scalar_variable 1, scalar_variable 3]
        | M_D_x_discriminator \<Rightarrow> [scalar_variable 0]
        | M_waveganq \<Rightarrow> [scalar_variable 0]
        | M_inter_discriminator \<Rightarrow> [scalar_variable 1]),
      phase_draws = (\<lambda>model site. 0),
      name_batch_set_len = 1,
      decode_extract_and_batch = (\<lambda>epoch batch. replicate 2 (replicate 16384 [0])),
      record_tape = (\<lambda>st z dataset. scenario_tape),
      update_rule = (\<lambda>opt i g v. v\<lparr>elems := map2 (\<lambda>w d. w - learning_rate opt * d) (elems v) (elems g)\<rparr>),
      update_slots = (\<lambda>opt grads. opt)\<rparr>"

definition scenario_state :: "string \<Rightarrow> train_state" where
  "scenario_state loss =
     \<lparr>G_z_generator = initial_variables scenario_env M_G_z_generator,
      D_x_discriminator = initial_variables scenario_env M_D_x_discriminator,
      waveganq = initial_variables scenario_env M_waveganq,
      inter_discriminator = initial_variables scenario_env M_inter_discriminator,
      G_opt = new_optimizer (if loss = ''wgan'' then RMSprop (5 / 10^5) else Adam (1 / 10^4) (1/2) (9/10)),
      D_opt = new_optimizer (if loss = ''wgan'' then RMSprop (5 / 10^5) else Adam (1 / 10^4) (1/2) (9/10)),
      Q_opt = (if loss = ''wgan-gp'' then Some (new_optimizer (RMSprop (1 / 10^4))) else None),
      rng_state = (\<lambda>k. 1/4), scalars = [], saved = None\<rparr>"


section \<open>Auxiliary facts\<close>

lemmas scenario_defs = scenario_args_def scenario_env_def scenario_state_def bias_layers_def bias_of_def
  tap_of_def scalar_variable_def scenario_tape_def learning_rate_def new_optimizer_def

lemmas network_defs = G_z_generator_call_def WaveGANGenerator_def conv1d_transpose_def reshape_16_def
  relu_def bind_err_def discriminator_call_def WaveGANDiscriminator_def WaveGANQ_def waveganq_call_def
  lrelu_def

lemmas loss_defs = forward_and_loss_def compute_loss_def compute_loss_branch_def
  sigmoid_cross_entropy_with_logits_def sigmoid_cross_entropy_with_logits2_def

lemma bind_err_InrE:
  assumes "bind_err m f = Inr y"
  obtains x where "m = Inr x" and "f x = Inr y"
  using assms by (cases m) (auto simp: bind_err_def)

subsection \<open>Random draws\<close>

lemma random_uniform_ok:
  assumes "unit_draws rng" "minval \<le> maxval"
  shows "\<exists>u rng'. random_uniform rng (int r) (int c) minval maxval = Inr (u, rng') \<and> unit_draws rng'
     \<and> length u = r \<and> (\<forall>row \<in> set u. length row = c \<and> (\<forall>v \<in> set row. minval \<le> v \<and> v \<le> maxval))"
proof -
  have b: "minval \<le> minval + rng k * (maxval - minval) \<and> minval + rng k * (maxval - minval) \<le> maxval" for k
  proof -
    have "0 \<le> rng k" "rng k \<le> 1" using assms(1) by (auto simp: unit_draws_def less_imp_le)
    moreover have "0 \<le> maxval - minval" using assms(2) by simp
    ultimately have "0 \<le> rng k * (maxval - minval)" "rng k * (maxval - minval) \<le> maxval - minval"
      using mult_right_mono [of "rng k" 1 "maxval - minval"] by simp_all
    then show ?thesis by simp
  qed
  show ?thesis using assms(1) b
    by (auto simp: random_uniform_def Let_def unit_draws_def)
qed

lemma random_bernoulli_ok:
  assumes "unit_draws rng"
  shows "\<exists>u rng'. random_bernoulli rng (int r) (int c) p = Inr (u, rng') \<and> unit_draws rng'
     \<and> length u = r \<and> (\<forall>row \<in> set u. length row = c \<and> set row \<subseteq> {0, 1})"
proof -
  obtain u rng' where u: "random_uniform rng (int r) (int c) 0 1 = Inr (u, rng')" "unit_draws rng'"
    "length u = r" "\<forall>row \<in> set u. length row = c"
    using random_uniform_ok [OF assms, of 0 1 r c] by auto
  then show ?thesis by (auto simp: random_bernoulli_def)
qed

subsection \<open>The cross-entropy formula and means\<close>

lemma sigmoid_bounds: "0 < sigmoid v \<and> sigmoid v < 1"
proof -
  have "0 < exp (- v)" by simp
  then show ?thesis by (simp add: sigmoid_def add_pos_pos)
qed

lemma sigmoid_0: "sigmoid 0 = 1/2"
  by (simp add: sigmoid_def)


lemma sigmoid_ce_eq: "sigmoid_ce z x = cross_entropy z x"
proof -
  have p: "0 < 1 + exp (- x)" by (simp add: add_pos_pos)
  have l1: "ln (sigmoid x) = - ln (1 + exp (- x))"
    using p by (simp add: sigmoid_def ln_div)
  have "1 - sigmoid x = exp (- x) / (1 + exp (- x))"
    using p by (simp add: sigmoid_def field_simps)
  then have l2: "ln (1 - sigmoid x) = - x - ln (1 + exp (- x))"
    using p by (simp add: ln_div)
  have l3: "max x 0 + ln (1 + exp (- \<bar>x\<bar>)) = x + ln (1 + exp (- x))"
  proof (cases "0 \<le> x")
    case True
    then show ?thesis by simp
  next
    case False
    then have n: "x < 0" by simp
    have "1 + exp x = exp x * (1 + exp (- x))"
      by (simp add: algebra_simps flip: exp_add)
    then have "ln (1 + exp x) = x + ln (1 + exp (- x))"
      using p by (simp add: ln_mult)
    with n show ?thesis by simp
  qed
  show ?thesis
    unfolding sigmoid_ce_def cross_entropy_def l1 l2 using l3 by (simp add: algebra_simps)
qed

lemma zip_replicate_left: "length xs = n \<Longrightarrow> zip (replicate n c) xs = map (\<lambda>x. (c, x)) xs"
  by (induction xs arbitrary: n) auto

lemma ce_const_labels:
  "length xs = n \<Longrightarrow>
   sigmoid_cross_entropy_with_logits (replicate n c) xs = Inr (map (cross_entropy c) xs)"
  by (simp add: sigmoid_cross_entropy_with_logits_def zip_replicate_left sigmoid_ce_eq comp_def)

lemma sum_list_map2_add:
  "length xs = length ys \<Longrightarrow>
   sum_list (map2 (\<lambda>a b. f a + g b) xs ys) = sum_list (map f xs) + (sum_list (map g ys) :: real)"
  by (induction xs ys rule: list_induct2) (auto simp: algebra_simps)

lemma reduce_mean_map2_add:
  "length xs = length ys \<Longrightarrow>
   reduce_mean (map2 (\<lambda>a b. f a + g b) xs ys) = reduce_mean (map f xs) + reduce_mean (map g ys)"
  by (simp add: reduce_mean_def sum_list_map2_add add_divide_distrib)

subsection \<open>Rounding to float32\<close>

lemma pow2_powr: "pow2 e = 2 powr (of_int e)"
  by (simp add: pow2_def powr_real_of_int inverse_eq_divide)

lemma floor_log2:
  assumes "pow2 e \<le> y" and "y < pow2 (e + 1)"
  shows "\<lfloor>log 2 y\<rfloor> = e"
proof -
  have "0 < pow2 e" by (simp add: pow2_powr)
  then have p: "0 < y" using assms(1) by simp
  have "of_int e \<le> log 2 y" using assms(1) p by (simp add: le_log_iff pow2_powr)
  moreover have "log 2 y < of_int e + 1" using assms(2) p by (simp add: log_less_iff pow2_powr)
  ultimately show ?thesis by (simp add: floor_eq_iff)
qed

lemma float32_zero: "float32 0 = 0"
  by (simp add: float32_def)

lemma float32_at:
  assumes "r \<noteq> 0" and "pow2 e \<le> \<bar>r\<bar>" and "\<bar>r\<bar> < pow2 (e + 1)" and "- 126 \<le> e"
  shows "float32 r = of_int (round_half_even (r / pow2 (e - 23))) * pow2 (e - 23)"
  using assms floor_log2 [OF assms(2,3)] by (simp add: float32_def Let_def max_def)

lemma float32_half: "float32 (1/2) = 1/2"
  by (subst float32_at [where e = "-1"]) (simp_all add: pow2_def round_half_even_def Let_def)

lemma float32_minus_quarter: "float32 (- (1/4)) = - (1/4)"
  by (subst float32_at [where e = "-2"]) (simp_all add: pow2_def round_half_even_def Let_def)

lemma float32_minus_three_quarters: "float32 (- (3/4)) = - (3/4)"
  by (subst float32_at [where e = "-1"]) (simp_all add: pow2_def round_half_even_def Let_def)

lemma float32_three_tenths: "float32 (10066330 / 2^25) = 10066330 / 2^25"
  by (subst float32_at [where e = "-2"]) (simp_all add: pow2_def round_half_even_def Let_def)

lemma float32_minus_nine_tenths: "float32 (- (15099494 / 2^24)) = - (15099494 / 2^24)"
  by (subst float32_at [where e = "-1"]) (simp_all add: pow2_def round_half_even_def Let_def)

lemma float32_difference_tie: "float32 (- (15099494 / 2^24) - 10066330 / 2^25) = - (10066330 / 2^23)"
  by (subst float32_at [where e = 0]) (simp_all add: pow2_def round_half_even_def Let_def)

lemma float32_product_exact: "float32 (1 * - (10066330 / 2^23)) = - (10066330 / 2^23)"
  by (subst float32_at [where e = 0]) (simp_all add: pow2_def round_half_even_def Let_def)

lemma float32_sum_off: "float32 (10066330 / 2^25 + - (10066330 / 2^23)) = - (15099495 / 2^24)"
  by (subst float32_at [where e = "-1"]) (simp_all add: pow2_def round_half_even_def Let_def)

subsection \<open>Interpolation\<close>

lemma map2_rows_same_shape:
  "map length ge = map length xe \<Longrightarrow> map length (map2 (map2 f) ge xe) = map length xe"
proof (induction ge arbitrary: xe)
  case Nil
  then show ?case by simp
next
  case (Cons r ge)
  then obtain r' xe' where "xe = r' # xe'" by (cases xe) auto
  with Cons show ?case by simp
qed

lemma map2_rows_nth:
  assumes "map length xe = map length de" and "j < length xe" and "k < length (xe ! j)"
  shows "map2 (map2 f) xe de ! j ! k = f (xe ! j ! k) (de ! j ! k)"
proof -
  have l: "length xe = length de" using assms(1) by (metis length_map)
  have r: "length (xe ! j) = length (de ! j)" using assms(1,2) l by (metis nth_map)
  show ?thesis using assms(2,3) l r by simp
qed

lemma rows_eqI:
  assumes "map length ye = map length xe"
    and "\<And>j k. j < length xe \<Longrightarrow> k < length (xe ! j) \<Longrightarrow> ye ! j ! k = xe ! j ! k"
  shows "ye = (xe :: 'a list list)"
proof -
  have l: "length ye = length xe" using assms(1) by (metis length_map)
  have r: "length (ye ! j) = length (xe ! j)" if "j < length xe" for j
    using assms(1) that l by (metis nth_map)
  show ?thesis
    using l r assms(2) by (auto simp: list_eq_iff_nth_eq)
qed

lemma interpolate_nth:
  assumes "map (map length) G_z = map (map length) x" and "length alpha = length x" and "i < length x"
  shows "interpolate x G_z alpha ! i =
     map2 (map2 (\<lambda>v d. float32 (v + float32 (alpha ! i * d)))) (x ! i)
       (map2 (map2 (\<lambda>g v. float32 (g - v))) (G_z ! i) (x ! i))"
proof -
  have l: "length G_z = length x" using assms(1) by (metis length_map)
  show ?thesis using assms(2,3) l by (simp add: interpolate_def Let_def)
qed

subsection \<open>The networks\<close>

lemma tanh3_bounded: "bounded3 (map (map (map tanh)) t)"
  using tanh_real_lt_1 tanh_real_gt_neg1
  by (auto simp: bounded3_def intro: less_imp_le)

lemma WaveGANGenerator_bounded:
  assumes "WaveGANGenerator K n vars z slice_len nch kernel_len d use_batchnorm upsample tr = Inr out"
  shows "bounded3 out"
proof -
  have ok: "slice_len = 16384 \<or> slice_len = 32768 \<or> slice_len = 65536"
    using assms by (auto simp: WaveGANGenerator_def split: if_splits)
  have "\<exists>t. out = map (map (map tanh)) t"
    using assms ok
    unfolding WaveGANGenerator_def Let_def
    by (auto elim!: bind_err_InrE split: if_splits)
  then show ?thesis using tanh3_bounded by auto
qed

lemma ex_map_comp: "\<exists>l. map (f \<circ> g) xs = map f l"
  by (rule exI [of _ "map g xs"]) simp

lemma WaveGANDiscriminator_sigmoid:
  assumes "WaveGANDiscriminator K vars u slice_len x kernel_len d use_batchnorm rad = Inr s"
  shows "\<exists>logits. s = map sigmoid logits"
  using assms unfolding WaveGANDiscriminator_def Let_def
  by (auto elim!: bind_err_InrE intro: ex_map_comp)

lemma tanh_1_gain: "1 < 3 * tanh (1::real)"
proof -
  have "3 \<le> exp (2::real)" using exp_ge_add_one_self [of "2::real"] by simp
  then have "exp (- 2 :: real) \<le> 1 / 3"
    by (simp add: exp_minus field_simps)
  then have q: "exp (- 2 :: real) < 1 / 2" by simp
  have p: "0 < 1 + exp (- 2 :: real)" by (simp add: add_pos_pos)
  have t: "tanh (1::real) = (1 - exp (- 2)) / (1 + exp (- 2))"
    using tanh_real_altdef [of 1] by simp
  have "1 + exp (- 2 :: real) < 3 * (1 - exp (- 2))" using q by simp
  then have "1 < 3 * (1 - exp (- 2 :: real)) / (1 + exp (- 2))"
    using p by (simp add: pos_less_divide_eq)
  then show ?thesis unfolding t by simp
qed

subsection \<open>Steps that cannot return their losses\<close>

lemma compute_loss_name_error:
  assumes "wavegan_loss a \<in> {''dcgan'', ''lsgan'', ''wgan''}"
  shows "\<exists>e. compute_loss a rng D_G_z D_x x G_z inter_d ivars tape z Q_G_z = Inl e
           \<and> (length D_G_z = train_batch_size a \<and> length D_x = train_batch_size a \<longrightarrow>
                e = (if wavegan_loss a = ''wgan'' then NameError ''D_vars''
                     else UnboundLocalError ''Q_loss''))"
  using assms
  by (auto simp: compute_loss_def compute_loss_branch_def bind_err_def Let_def
        sigmoid_cross_entropy_with_logits_def split: sum.splits)

lemma forward_and_loss_fails:
  assumes "wavegan_loss a \<in> {''dcgan'', ''lsgan'', ''wgan''}"
  shows "\<exists>e. forward_and_loss E a steps st dataset z rng = Inl e"
proof -
  have c: "\<And>rng D_G_z D_x x G_z inter_d ivars tape z Q_G_z.
     \<exists>e. compute_loss a rng D_G_z D_x x G_z inter_d ivars tape z Q_G_z = Inl e"
    using compute_loss_name_error [OF assms] by blast
  show ?thesis
    unfolding forward_and_loss_def bind_err_def
    by (auto split: sum.splits simp: c)
qed

lemma train_step_fails:
  assumes "wavegan_loss a \<in> {''dcgan'', ''lsgan'', ''wgan''}"
  shows "\<exists>e. fst (train_step E a epoch batch st) = Some e"
proof -
  have c: "\<And>steps st dataset z rng. \<exists>e. forward_and_loss E a steps st dataset z rng = Inl e"
    using forward_and_loss_fails [OF assms] by blast
  show ?thesis
    unfolding train_step_def Let_def
    apply (simp split: sum.splits prod.splits)
    by (metis c Inl_Inr_False)
qed

lemma failing_step_keeps_discriminator:
  assumes "wavegan_loss a \<in> {''dcgan'', ''lsgan'', ''wgan''}"
  shows "D_x_discriminator (snd (train_step E a epoch batch st)) = D_x_discriminator st"
proof -
  have c: "\<And>steps st dataset z rng. \<exists>e. forward_and_loss E a steps st dataset z rng = Inl e"
    using forward_and_loss_fails [OF assms] by blast
  show ?thesis
    unfolding train_step_def Let_def
    apply (simp split: sum.splits prod.splits)
    by (metis c Inl_Inr_False)
qed


lemma compute_loss_reads_variable_gradient_only:
  assumes "tape T_D_interp (variables_of M_inter_discriminator ivars)
         = tape' T_D_interp (variables_of M_inter_discriminator ivars)"
  shows "compute_loss a rng D_G_z D_x x G_z inter_d ivars tape z Q_G_z
       = compute_loss a rng D_G_z D_x x G_z inter_d ivars tape' z Q_G_z"
  unfolding compute_loss_def compute_loss_branch_def assms by (rule refl)

subsection \<open>Sums over a zero gradient\<close>

lemma sqrt_9: "sqrt 9 = 3"
  using real_sqrt_abs [of 3] by simp

lemma sum_list_all_zero:
  "(\<And>x. x \<in> set xs \<Longrightarrow> f x = (0::real)) \<Longrightarrow> sum_list (map f xs) = 0"
  by (induction xs) auto

lemma product_singleton: "List.product xs [y] = map (\<lambda>x. (x, y)) xs"
  by (induction xs) auto

lemma reduce_sum_axis12_zero:
  "reduce_sum_axis12 \<lparr>shape = [a, b, c], elems = replicate (a * b * c) 0\<rparr> = Inr (replicate a 0)"
proof -
  have i: "(i * (b * c) + j) < a * b * c" if "i < a" "j < b * c" for i j
  proof -
    have "i * (b * c) + j < i * (b * c) + b * c" using that(2) by simp
    also have "\<dots> = Suc i * (b * c)" by simp
    also have "\<dots> \<le> a * (b * c)" using that(1) by (intro mult_le_mono1) simp
    finally show ?thesis by (simp add: mult.assoc)
  qed
  have "sum_list (map (\<lambda>j. replicate (a * b * c) (0::real) ! (i * (b * c) + j)) [0..<b * c]) = 0"
    if "i < a" for i
    by (rule sum_list_all_zero) (use i [OF that] in auto)
  then have "map (\<lambda>i. sum_list (map (\<lambda>j. replicate (a * b * c) (0::real) ! (i * (b * c) + j)) [0..<b * c])) [0..<a]
      = replicate a 0"
    by (auto simp: list_eq_iff_nth_eq)
  then show ?thesis
    by (simp add: reduce_sum_axis12_def Let_def product_singleton comp_def)
qed

subsection \<open>The concrete run\<close>

lemma sample_z_scenario:
  "sample_z (scenario_args loss pp) (\<lambda>k. 1/4) = Inr ([[1, 1, -1/2, -1/2], [1, 1, -1/2, -1/2]], \<lambda>k. 1/4)"
  by (simp add: sample_z_def random_bernoulli_def random_uniform_def concat_axis1_def scenario_args_def
        Let_def upt_conv_Cons numeral_2_eq_2)

lemma scenario_sample_z:
  "sample_z (scenario_args loss pp) (rng_state (scenario_state loss')) =
     Inr ([[1, 1, -1/2, -1/2], [1, 1, -1/2, -1/2]], \<lambda>k. 1/4)"
  using sample_z_scenario [of loss pp] by (simp add: scenario_state_def)

lemma shape3_replicate:
  "0 < b \<Longrightarrow> 0 < t \<Longrightarrow> shape3 (replicate b (replicate t (replicate c v))) = Some (b, t, c)"
  by (cases b; cases t) (auto simp: shape3_def)

lemma scenario_shape: "shape3 (replicate 2 (replicate 16384 [0::real])) = Some (2, 16384, Suc 0)"
  using shape3_replicate [of 2 16384 "Suc 0" 0] by simp

lemma scenario_build: "build_models scenario_env (scenario_args loss False) = Inr ()"
  by (simp add: scenario_defs network_defs Let_def build_models_def)

lemma scenario_G_pp:
  "G_z_generator_call scenario_env (scenario_args loss True) [scalar_variable 1, scalar_variable 3]
     [[1, 1, 1, 1], [-1, -1, -1, -1]]
   = Inr [replicate 16384 [3 * tanh 1], replicate 16384 [3 * tanh 1]]"
  by (simp add: scenario_defs network_defs Let_def)

lemma scenario_G:
  "G_z_generator_call scenario_env (scenario_args loss False) [scalar_variable 1, scalar_variable 3]
     [[1, 1, 1, 1], [-1, -1, -1, -1]]
   = Inr [replicate 16384 [tanh 1], replicate 16384 [tanh 1]]"
  by (simp add: scenario_defs network_defs Let_def)

lemma scenario_D_inter:
  "discriminator_call scenario_env (scenario_args loss pp) [scalar_variable 1] (\<lambda>site. 0)
     (replicate 2 (replicate 16384 [0])) = Inr [sigmoid 1, sigmoid 1]"
  by (simp add: scenario_defs network_defs Let_def numeral_2_eq_2)

lemma scenario_step_dcgan:
  "fst (train_step scenario_env (scenario_args ''dcgan'' False) 0 0 (scenario_state ''dcgan''))
     = Some (UnboundLocalError ''Q_loss'')"
  unfolding train_step_def Let_def scenario_sample_z
  by (simp add: scenario_shape loss_defs scenario_defs network_defs Let_def)

lemma scenario_step_wgan_unclipped:
  "fst (train_step scenario_env (scenario_args ''wgan'' False) 0 0
         ((scenario_state ''wgan'')\<lparr>D_x_discriminator := [scalar_variable (1/2)]\<rparr>))
     = Some (NameError ''D_vars'')"
proof -
  have sz: "sample_z (scenario_args ''wgan'' False)
       (rng_state ((scenario_state ''wgan'')\<lparr>D_x_discriminator := [scalar_variable (1/2)]\<rparr>)) =
     Inr ([[1, 1, -1/2, -1/2], [1, 1, -1/2, -1/2]], \<lambda>k. 1/4)"
    using sample_z_scenario [of "''wgan''" False] by (simp add: scenario_state_def)
  show ?thesis
    unfolding train_step_def Let_def sz
    by (simp add: scenario_shape loss_defs scenario_defs network_defs Let_def)
qed

lemma scenario_input_penalty: "input_gradient_penalty scenario_tape = Inr 1"
proof -
  have "reduce_sum_axis12 (square \<lparr>shape = [2, 16384, 1], elems = replicate (2 * 16384 * 1) 0\<rparr>)
      = Inr (replicate 2 0)"
    using reduce_sum_axis12_zero [of 2 16384 1] by (simp add: square_def)
  then show ?thesis
    by (simp add: input_gradient_penalty_def scenario_tape_def bind_err_def reduce_mean_def numeral_2_eq_2)
qed

lemma scenario_forward_wgan_gp:
  "forward_and_loss scenario_env (scenario_args ''wgan-gp'' False) 0 (scenario_state ''wgan-gp'')
     (replicate 2 (replicate 16384 [0])) [[1, 1, -1/2, -1/2], [1, 1, -1/2, -1/2]] (\<lambda>k. 1/4)
   = Inr (- 1/2, 40, ln (1 + exp (- 1/2)))"
  by (simp add: loss_defs scenario_defs network_defs Let_def sigmoid_0 sqrt_9 numeral_2_eq_2
       interpolate_def reduce_sum_axis12_def square_def reduce_mean_def variables_of_def sigmoid_ce_def)




subsection \<open>The scores of a step\<close>



section \<open>The claims\<close>

text \<open>
  C1. In the wgan-gp branch the penalty added to \<open>D_loss\<close> is 10 times the mean of
  \<open>(slope - 1)\<^sup>2\<close>, where the slopes come from the gradient of the interpolated scores
  with respect to the first variable of \<open>inter_discriminator\<close>, reduced over its second
  and third axes, and not from the gradient with respect to the interpolated input:
  two tapes that agree on the gradients with respect to the variables of
  \<open>inter_discriminator\<close> give the same losses, whatever they report for the
  interpolated input. In the concrete run both discriminators score \<open>1/2\<close> on the fake
  and the real batch, the tape reports the gradient 3 for the variable and the null
  gradient for the interpolated input: \<open>D_loss\<close> is \<open>0 + 10 * (3 - 1)\<^sup>2 = 40\<close>, whereas
  the penalty on the input gradient is \<open>(0 - 1)\<^sup>2 = 1\<close> and would give 10.
\<close>

theorem gradient_penalty_taken_on_first_variable:
  "(tape T_D_interp (variables_of M_inter_discriminator ivars)
      = tape' T_D_interp (variables_of M_inter_discriminator ivars) \<longrightarrow>
    compute_loss a rng D_G_z D_x x G_z inter_d ivars tape z Q_G_z
      = compute_loss a rng D_G_z D_x x G_z inter_d ivars tape' z Q_G_z)
   \<and> forward_and_loss scenario_env (scenario_args ''wgan-gp'' False) 0 (scenario_state ''wgan-gp'')
     (replicate 2 (replicate 16384 [0])) [[1, 1, -1/2, -1/2], [1, 1, -1/2, -1/2]] (\<lambda>k. 1/4)
     = Inr (- 1/2, 40, ln (1 + exp (- 1/2)))
   \<and> scenario_tape T_D_interp
        (variables_of M_inter_discriminator (inter_discriminator (scenario_state ''wgan-gp'')))
     = [\<lparr>shape = [1, 1, 1], elems = [3]\<rparr>]
   \<and> input_gradient_penalty scenario_tape = Inr 1"
proof (intro conjI impI)
  assume "tape T_D_interp (variables_of M_inter_discriminator ivars)
      = tape' T_D_interp (variables_of M_inter_discriminator ivars)"
  then show "compute_loss a rng D_G_z D_x x G_z inter_d ivars tape z Q_G_z
      = compute_loss a rng D_G_z D_x x G_z inter_d ivars tape' z Q_G_z"
    by (rule compute_loss_reads_variable_gradient_only)
next
  show "forward_and_loss scenario_env (scenario_args ''wgan-gp'' False) 0 (scenario_state ''wgan-gp'')
     (replicate 2 (replicate 16384 [0])) [[1, 1, -1/2, -1/2], [1, 1, -1/2, -1/2]] (\<lambda>k. 1/4)
     = Inr (- 1/2, 40, ln (1 + exp (- 1/2)))"
    by (rule scenario_forward_wgan_gp)
next
  show "scenario_tape T_D_interp
        (variables_of M_inter_discriminator (inter_discriminator (scenario_state ''wgan-gp'')))
     = [\<lparr>shape = [1, 1, 1], elems = [3]\<rparr>]"
    by (simp add: scenario_tape_def variables_of_def scenario_state_def scenario_env_def scalar_variable_def)
next
  show "input_gradient_penalty scenario_tape = Inr 1"
    by (rule scenario_input_penalty)
qed

theorem gradient_penalty_taken_on_first_variable_witness:
  "scenario_tape T_D_interp (variables_of M_inter_discriminator [scalar_variable 1])
     = (\<lambda>t s. map (\<lambda>r. scalar_variable 3) s) T_D_interp (variables_of M_inter_discriminator [scalar_variable 1])
   \<and> input_gradient_penalty scenario_tape \<noteq> input_gradient_penalty (\<lambda>t s. map (\<lambda>r. scalar_variable 3) s)
   \<and> compute_loss (scenario_args ''wgan-gp'' False) (\<lambda>k. 1/4) [1/2, 1/2] [1/2, 1/2]
        [[[0]], [[0]]] [[[1]], [[1]]] (\<lambda>t. Inr [1/2, 1/2]) [scalar_variable 1] scenario_tape
        [[1, 1, -1/2, -1/2], [1, 1, -1/2, -1/2]] [[1/2, 1/2], [1/2, 1/2]]
     = compute_loss (scenario_args ''wgan-gp'' False) (\<lambda>k. 1/4) [1/2, 1/2] [1/2, 1/2]
        [[[0]], [[0]]] [[[1]], [[1]]] (\<lambda>t. Inr [1/2, 1/2]) [scalar_variable 1]
        (\<lambda>t s. map (\<lambda>r. scalar_variable 3) s)
        [[1, 1, -1/2, -1/2], [1, 1, -1/2, -1/2]] [[1/2, 1/2], [1/2, 1/2]]"
proof -
  have h: "scenario_tape T_D_interp (variables_of M_inter_discriminator [scalar_variable 1])
     = (\<lambda>t s. map (\<lambda>r. scalar_variable 3) s) T_D_interp (variables_of M_inter_discriminator [scalar_variable 1])"
    by (simp add: scenario_tape_def variables_of_def)
  have p: "input_gradient_penalty (\<lambda>t s. map (\<lambda>r. scalar_variable 3) s) = Inr 4"
    by (simp add: input_gradient_penalty_def scalar_variable_def reduce_sum_axis12_def square_def
          bind_err_def reduce_mean_def sqrt_9)
  show ?thesis
    using h p scenario_input_penalty
      gradient_penalty_taken_on_first_variable
        [of scenario_tape "[scalar_variable 1]" "\<lambda>t s. map (\<lambda>r. scalar_variable 3) s"
            "scenario_args ''wgan-gp'' False" "\<lambda>k. 1/4" "[1/2, 1/2]" "[1/2, 1/2]"
            "[[[0]], [[0]]]" "[[[1]], [[1]]]" "\<lambda>t. Inr [1/2, 1/2]"
            "[[1, 1, -1/2, -1/2], [1, 1, -1/2, -1/2]]" "[[1/2, 1/2], [1/2, 1/2]]"]
    by simp
qed

text \<open>
  C2. Under wgan a training step raises before any optimizer update: it ends in an
  exception and leaves the variables of the discriminator as they were, so no update
  of D is ever followed by a clip into \<open>[-0.01, 0.01]\<close>. In the concrete run a
  discriminator weight of \<open>1/2\<close> is still \<open>1/2\<close> when the step has raised
  \<open>NameError\<close> for \<open>D_vars\<close>.
\<close>

theorem wgan_step_raises_before_any_update:
  assumes "wavegan_loss a = ''wgan''"
  shows "(\<exists>e. fst (train_step E a epoch batch st) = Some e)
       \<and> D_x_discriminator (snd (train_step E a epoch batch st)) = D_x_discriminator st"
proof -
  have w: "wavegan_loss a \<in> {''dcgan'', ''lsgan'', ''wgan''}" using assms by simp
  show ?thesis
    using train_step_fails [OF w] failing_step_keeps_discriminator [OF w] by blast
qed

theorem wgan_step_raises_before_any_update_witness:
  "wavegan_loss (scenario_args ''wgan'' False) = ''wgan''
   \<and> fst (train_step scenario_env (scenario_args ''wgan'' False) 0 0
         ((scenario_state ''wgan'')\<lparr>D_x_discriminator := [scalar_variable (1/2)]\<rparr>))
       = Some (NameError ''D_vars'')
   \<and> D_x_discriminator (snd (train_step scenario_env (scenario_args ''wgan'' False) 0 0
         ((scenario_state ''wgan'')\<lparr>D_x_discriminator := [scalar_variable (1/2)]\<rparr>)))
       = [\<lparr>shape = [1, 1, 1], elems = [1/2]\<rparr>]
   \<and> \<not> (1/2 \<le> (1/100 :: real))"
proof -
  have h: "wavegan_loss (scenario_args ''wgan'' False) = ''wgan''" by (simp add: scenario_args_def)
  show ?thesis
    using h scenario_step_wgan_unclipped
      wgan_step_raises_before_any_update [OF h, of scenario_env 0 0
        "(scenario_state ''wgan'')\<lparr>D_x_discriminator := [scalar_variable (1/2)]\<rparr>"]
    by (simp add: scalar_variable_def)
qed

text \<open>
  C3. Whatever the loss variant, the scores that the discriminator returns are the
  sigmoid of its single logit, hence strictly between 0 and 1: the final squashing does
  not depend on the variant, and under wgan and wgan-gp the losses read squashed scores,
  not raw ones.
\<close>

theorem discriminator_score_squashed_for_every_loss:
  assumes "discriminator_call E a vars u x = Inr s"
  shows "(\<exists>logits. s = map sigmoid logits) \<and> (\<forall>v \<in> set s. 0 < v \<and> v < 1)"
proof -
  obtain logits where "s = map sigmoid logits"
    using assms WaveGANDiscriminator_sigmoid unfolding discriminator_call_def by blast
  then show ?thesis using sigmoid_bounds by auto
qed

theorem discriminator_score_squashed_for_every_loss_witness:
  "discriminator_call scenario_env (scenario_args ''wgan-gp'' False) [scalar_variable 1] (\<lambda>site. 0)
     (replicate 2 (replicate 16384 [0])) = Inr [sigmoid 1, sigmoid 1]
   \<and> 0 < sigmoid 1 \<and> sigmoid 1 < 1"
  using scenario_D_inter [of "''wgan-gp''" False]
    discriminator_score_squashed_for_every_loss [OF scenario_D_inter [of "''wgan-gp''" False]]
  by simp



text \<open>
  C5. Under dcgan, lsgan and wgan no training step completes: \<open>compute_loss\<close> raises
  instead of returning three losses, so the step ends in an exception. When the two
  score vectors have the batch size, the exception is the name-resolution error:
  \<open>D_vars\<close> unbound under wgan, \<open>Q_loss\<close> unbound under dcgan and lsgan.
\<close>

theorem step_fails_unless_wgan_gp:
  assumes "wavegan_loss a \<in> {''dcgan'', ''lsgan'', ''wgan''}"
  shows "(\<exists>e. fst (train_step E a epoch batch st) = Some e)
       \<and> (\<exists>e. compute_loss a rng D_G_z D_x x G_z inter_d ivars tape z Q_G_z = Inl e
             \<and> (length D_G_z = train_batch_size a \<and> length D_x = train_batch_size a \<longrightarrow>
                  e = (if wavegan_loss a = ''wgan'' then NameError ''D_vars''
                       else UnboundLocalError ''Q_loss'')))"
  using train_step_fails [OF assms] compute_loss_name_error [OF assms] by blast

theorem step_fails_unless_wgan_gp_witness:
  "wavegan_loss (scenario_args ''dcgan'' False) \<in> {''dcgan'', ''lsgan'', ''wgan''}
   \<and> (\<exists>e. fst (train_step scenario_env (scenario_args ''dcgan'' False) 0 0 (scenario_state ''dcgan'')) = Some e)
   \<and> fst (train_step scenario_env (scenario_args ''dcgan'' False) 0 0 (scenario_state ''dcgan''))
       = Some (UnboundLocalError ''Q_loss'')"
proof -
  have h: "wavegan_loss (scenario_args ''dcgan'' False) \<in> {''dcgan'', ''lsgan'', ''wgan''}"
    by (simp add: scenario_args_def)
  show ?thesis
    using h scenario_step_dcgan
      step_fails_unless_wgan_gp [OF h, of scenario_env 0 0 "scenario_state ''dcgan''"]
    by simp
qed

text \<open>
  C6, as the code has it. Every value that \<open>WaveGANGenerator\<close> returns lies in
  \<open>[-1, 1]\<close>, for every latent input and every configuration, by its final \<open>tanh\<close>. The
  generator model returns that bounded batch when the post-processing filter is off;
  when it is on, the model returns the bias-free filter applied to the bounded batch.
\<close>

theorem generator_bounded_before_final_filter:
  assumes "G_z_generator_call E a vars z = Inr G_z"
  shows "\<exists>t. WaveGANGenerator (layers E) (update_ops E) vars z (data_slice_len a) (data_num_channels a)
               (wavegan_kernel_len a) (wavegan_dim a) (wavegan_batchnorm a) (wavegan_genr_upsample a) True = Inr t
            \<and> bounded3 t
            \<and> G_z = (if wavegan_genr_pp a
                     then map (Conv1D (layers E) 1 (wavegan_genr_pp_len a) 1 False 7 vars) t else t)
            \<and> (\<not> wavegan_genr_pp a \<longrightarrow> bounded3 G_z)"
proof (cases "WaveGANGenerator (layers E) (update_ops E) vars z (data_slice_len a) (data_num_channels a)
               (wavegan_kernel_len a) (wavegan_dim a) (wavegan_batchnorm a) (wavegan_genr_upsample a) True")
  case (Inl e)
  with assms show ?thesis by (simp add: G_z_generator_call_def bind_err_def)
next
  case (Inr t)
  then have "bounded3 t" by (rule WaveGANGenerator_bounded)
  with Inr assms show ?thesis
    by (auto simp: G_z_generator_call_def bind_err_def split: if_splits)
qed

theorem generator_bounded_before_final_filter_witness:
  "G_z_generator_call scenario_env (scenario_args ''wgan-gp'' False) [scalar_variable 1, scalar_variable 3]
     [[1, 1, 1, 1], [-1, -1, -1, -1]]
   = Inr [replicate 16384 [tanh 1], replicate 16384 [tanh 1]]
   \<and> \<not> wavegan_genr_pp (scenario_args ''wgan-gp'' False)
   \<and> bounded3 [replicate 16384 [tanh 1], replicate 16384 [tanh 1]]"
  using scenario_G [of "''wgan-gp''"]
    generator_bounded_before_final_filter [OF scenario_G [of "''wgan-gp''"]]
  by (simp add: scenario_args_def)

text \<open>
  C6, as stated, fails with the post-processing filter on: nothing bounds the filtered
  batch, and with a filter tap of 3 the output on the latent rows of all 1 and all -1
  holds \<open>3 * tanh 1 > 1\<close>.
\<close>

theorem final_filter_output_unbounded:
  "G_z_generator_call scenario_env (scenario_args ''wgan-gp'' True) [scalar_variable 1, scalar_variable 3]
     [[1, 1, 1, 1], [-1, -1, -1, -1]]
   = Inr [replicate 16384 [3 * tanh 1], replicate 16384 [3 * tanh 1]]
   \<and> \<not> bounded3 [replicate 16384 [3 * tanh 1], replicate 16384 [3 * tanh 1]]"
  using scenario_G_pp [of "''wgan-gp''"] tanh_1_gain by (simp add: bounded3_def)

text \<open>
  C7. In the dcgan branch, for score vectors of the batch size, \<open>D_loss\<close> is the mean
  cross-entropy of the fake scores against label 0 plus the mean cross-entropy of the
  real scores against label 1, halved (which is also half the mean of the element-wise
  sum), and the generator's loss \<open>D_G_z_loss\<close> is the mean cross-entropy of the fake
  scores against label 1.
\<close>

theorem dcgan_losses:
  assumes "wavegan_loss a = ''dcgan''"
    and "length D_G_z = train_batch_size a" and "length D_x = train_batch_size a"
  shows "\<exists>l. compute_loss_branch a rng D_G_z D_x x G_z inter_d ivars tape z Q_G_z = Inr l
     \<and> D_loss l = (reduce_mean (map (cross_entropy 0) D_G_z) + reduce_mean (map (cross_entropy 1) D_x)) / 2
     \<and> D_loss l = reduce_mean (map2 (\<lambda>f r. cross_entropy 0 f + cross_entropy 1 r) D_G_z D_x) / 2
     \<and> D_G_z_loss l = reduce_mean (map (cross_entropy 1) D_G_z)"
  using assms
  by (simp add: compute_loss_branch_def bind_err_def Let_def ce_const_labels reduce_mean_map2_add)

theorem dcgan_losses_witness:
  "wavegan_loss (scenario_args ''dcgan'' False) = ''dcgan''
   \<and> length [1/2, 1/2 :: real] = train_batch_size (scenario_args ''dcgan'' False)
   \<and> (\<exists>l. compute_loss_branch (scenario_args ''dcgan'' False) (\<lambda>k. 1/4) [1/2, 1/2] [1/2, 1/2]
             [[[0]], [[0]]] [[[1]], [[1]]] (\<lambda>t. Inr [1/2, 1/2]) [] scenario_tape
             [[1, 1, -1/2, -1/2], [1, 1, -1/2, -1/2]] [[1/2, 1/2], [1/2, 1/2]] = Inr l
          \<and> D_loss l = (cross_entropy 0 (1/2) + cross_entropy 1 (1/2)) / 2
          \<and> D_G_z_loss l = cross_entropy 1 (1/2))"
proof -
  have h: "wavegan_loss (scenario_args ''dcgan'' False) = ''dcgan''"
    "length [1/2, 1/2 :: real] = train_batch_size (scenario_args ''dcgan'' False)"
    by (simp_all add: scenario_args_def)
  show ?thesis
    using h dcgan_losses [OF h(1) h(2) h(2), of "\<lambda>k. 1/4" "[[[0]], [[0]]]" "[[[1]], [[1]]]"
        "\<lambda>t. Inr [1/2, 1/2]" "[]" scenario_tape "[[1, 1, -1/2, -1/2], [1, 1, -1/2, -1/2]]"
        "[[1/2, 1/2], [1/2, 1/2]]"]
    by (auto simp: reduce_mean_def scenario_args_def)
qed

text \<open>
  C8. For every batch size and every number of categorical codes below the latent
  dimension, the latent sampler returns a batch of that many rows, each of the latent
  dimension; the first \<open>num_categ\<close> entries of a row, the code, are each exactly 0 or 1,
  the remaining ones lie in \<open>[-1, 1]\<close>: the code comes first, the continuous part after it.
\<close>

theorem sample_z_shape_and_ranges:
  assumes "unit_draws rng" and "num_categ a < wavegan_latent_dim a"
  shows "\<exists>z rng'. sample_z a rng = Inr (z, rng')
     \<and> length z = train_batch_size a
     \<and> (\<forall>row \<in> set z. length row = wavegan_latent_dim a
            \<and> set (take (num_categ a) row) \<subseteq> {0, 1}
            \<and> set (drop (num_categ a) row) \<subseteq> {-1 .. 1})"
proof -
  let ?B = "train_batch_size a" and ?C = "num_categ a" and ?D = "wavegan_latent_dim a"
  obtain categ rng1 where c: "random_bernoulli rng (int ?B) (int ?C) (1/2) = Inr (categ, rng1)"
    "unit_draws rng1" "length categ = ?B" "\<forall>row \<in> set categ. length row = ?C \<and> set row \<subseteq> {0, 1}"
    using random_bernoulli_ok [OF assms(1), of ?B ?C "1/2"] by blast
  have d: "int ?D - int ?C = int (?D - ?C)" using assms(2) by simp
  obtain uniform rng2 where u: "random_uniform rng1 (int ?B) (int ?D - int ?C) (-1) 1 = Inr (uniform, rng2)"
    "length uniform = ?B"
    "\<forall>row \<in> set uniform. length row = ?D - ?C \<and> (\<forall>v \<in> set row. -1 \<le> v \<and> v \<le> 1)"
    using random_uniform_ok [OF c(2), of "-1" 1 ?B "?D - ?C"] unfolding d by auto
  have z: "sample_z a rng = Inr (map (\<lambda>(ra, rb). ra @ rb) (zip categ uniform), rng2)"
    using c(1,3) u(1,2) by (simp add: sample_z_def concat_axis1_def)
  have "length row = ?D \<and> set (take ?C row) \<subseteq> {0, 1} \<and> set (drop ?C row) \<subseteq> {-1 .. 1}"
    if "row \<in> set (map (\<lambda>(ra, rb). ra @ rb) (zip categ uniform))" for row
  proof -
    from that obtain ra rb where r: "row = ra @ rb" "(ra, rb) \<in> set (zip categ uniform)" by auto
    then have "ra \<in> set categ" "rb \<in> set uniform" by (auto dest: set_zip_leftD set_zip_rightD)
    with c(4) u(3) have "length ra = ?C" "set ra \<subseteq> {0, 1}" "length rb = ?D - ?C"
      "\<forall>v \<in> set rb. -1 \<le> v \<and> v \<le> 1"
      by auto
    then show ?thesis using r(1) assms(2) by auto
  qed
  then show ?thesis using z c(3) u(2) by simp
qed

theorem sample_z_shape_and_ranges_witness:
  "unit_draws (\<lambda>k. 1/4)
   \<and> num_categ (scenario_args ''wgan-gp'' False) < wavegan_latent_dim (scenario_args ''wgan-gp'' False)
   \<and> (\<exists>z rng'. sample_z (scenario_args ''wgan-gp'' False) (\<lambda>k. 1/4) = Inr (z, rng')
        \<and> length z = 2
        \<and> (\<forall>row \<in> set z. length row = 4 \<and> set (take 2 row) \<subseteq> {0, 1} \<and> set (drop 2 row) \<subseteq> {-1 .. 1}))"
proof -
  have h1: "unit_draws (\<lambda>k. 1/4)" by (simp add: unit_draws_def)
  have h2: "num_categ (scenario_args ''wgan-gp'' False) < wavegan_latent_dim (scenario_args ''wgan-gp'' False)"
    by (simp add: scenario_args_def)
  show ?thesis
    using h1 h2 sample_z_shape_and_ranges [OF h1 h2] by (simp add: scenario_args_def)
qed

text \<open>
  C9, as the code has it. The interpolation \<open>x + alpha * (G_z - x)\<close> is computed on
  float32 tensors, with one coefficient per batch element broadcast over time and
  channel. For a real and a fake batch of one shape that hold float32 values, it returns
  the real example, exactly, at every batch element whose coefficient is 0; at a batch
  element whose coefficient is 1 it returns the fake example, exactly, whenever the
  differences \<open>G_z - x\<close> of that element are float32 values, that is, when the
  subtraction does not round.
\<close>

theorem interpolate_endpoints_float32:
  assumes "map (map length) G_z = map (map length) x" and "length alpha = length x" and "i < length x"
    and "\<forall>r \<in> set (x ! i). \<forall>v \<in> set r. float32 v = v"
    and "\<forall>r \<in> set (G_z ! i). \<forall>v \<in> set r. float32 v = v"
  shows "(alpha ! i = 0 \<longrightarrow> interpolate x G_z alpha ! i = x ! i)
       \<and> (alpha ! i = 1
            \<and> (\<forall>j < length (x ! i). \<forall>k < length (x ! i ! j).
                  float32 (G_z ! i ! j ! k - x ! i ! j ! k) = G_z ! i ! j ! k - x ! i ! j ! k)
          \<longrightarrow> interpolate x G_z alpha ! i = G_z ! i)"
proof -
  let ?xe = "x ! i" and ?ge = "G_z ! i"
  let ?de = "map2 (map2 (\<lambda>g v. float32 (g - v))) ?ge ?xe"
  have l: "length G_z = length x" using assms(1) by (metis length_map)
  have s: "map length ?ge = map length ?xe"
    using assms(1,3) l by (metis nth_map)
  have ls: "length ?ge = length ?xe" using s by (metis length_map)
  have rs: "length (?ge ! j) = length (?xe ! j)" if "j < length ?xe" for j
    using s that ls by (metis nth_map)
  have d: "map length ?xe = map length ?de"
    using map2_rows_same_shape [OF s, of "\<lambda>g v. float32 (g - v)"] by simp
  have dv: "?de ! j ! k = float32 (?ge ! j ! k - ?xe ! j ! k)"
    if "j < length ?xe" "k < length (?xe ! j)" for j k
    using map2_rows_nth [OF s, of j k "\<lambda>g v. float32 (g - v)"] that ls rs by simp
  have fx: "float32 (?xe ! j ! k) = ?xe ! j ! k" if "j < length ?xe" "k < length (?xe ! j)" for j k
    using assms(4) that by (metis nth_mem)
  have fg: "float32 (?ge ! j ! k) = ?ge ! j ! k" if "j < length ?xe" "k < length (?xe ! j)" for j k
    using assms(5) that ls rs by (metis nth_mem)
  have sh: "map length (map2 (map2 f) ?xe ?de) = map length ?xe" for f :: "real \<Rightarrow> real \<Rightarrow> real"
    using map2_rows_same_shape [of ?xe ?de f] d by simp
  have zero: "map2 (map2 (\<lambda>v d. float32 (v + float32 (0 * d)))) ?xe ?de = ?xe"
  proof (rule rows_eqI [OF sh])
    fix j k assume jk: "j < length ?xe" "k < length (?xe ! j)"
    show "map2 (map2 (\<lambda>v d. float32 (v + float32 (0 * d)))) ?xe ?de ! j ! k = ?xe ! j ! k"
      using map2_rows_nth [OF d jk, of "\<lambda>v d. float32 (v + float32 (0 * d))"] fx [OF jk]
      by (simp add: float32_zero)
  qed
  have one: "map2 (map2 (\<lambda>v d. float32 (v + float32 (1 * d)))) ?xe ?de = ?ge"
    if e: "\<forall>j < length ?xe. \<forall>k < length (?xe ! j).
             float32 (?ge ! j ! k - ?xe ! j ! k) = ?ge ! j ! k - ?xe ! j ! k"
  proof (rule rows_eqI)
    show "map length (map2 (map2 (\<lambda>v d. float32 (v + float32 (1 * d)))) ?xe ?de) = map length ?ge"
      using sh s by simp
  next
    fix j k assume "j < length ?ge" "k < length (?ge ! j)"
    then have jk: "j < length ?xe" "k < length (?xe ! j)" using ls rs by simp_all
    have x: "float32 (?ge ! j ! k - ?xe ! j ! k) = ?ge ! j ! k - ?xe ! j ! k"
      using e jk by blast
    show "map2 (map2 (\<lambda>v d. float32 (v + float32 (1 * d)))) ?xe ?de ! j ! k = ?ge ! j ! k"
      using map2_rows_nth [OF d jk, of "\<lambda>v d. float32 (v + float32 (1 * d))"] dv [OF jk] fg [OF jk] x
      by simp
  qed
  show ?thesis
    unfolding interpolate_nth [OF assms(1,2,3)]
    using zero one by auto
qed

theorem interpolate_endpoints_float32_witness:
  "map (map length) [[[- (1/4)]], [[- (1/4 :: real)]]] = map (map length) [[[1/2]], [[1/2 :: real]]]
   \<and> length [0, 1 :: real] = length [[[1/2]], [[1/2 :: real]]]
   \<and> float32 (1/2) = 1/2 \<and> float32 (- (1/4)) = - (1/4) \<and> float32 (- (1/4) - 1/2) = - (1/4) - 1/2
   \<and> interpolate [[[1/2]], [[1/2]]] [[[- (1/4)]], [[- (1/4)]]] [0, 1] ! 0 = [[1/2]]
   \<and> interpolate [[[1/2]], [[1/2]]] [[[- (1/4)]], [[- (1/4)]]] [0, 1] ! 1 = [[- (1/4)]]"
proof -
  have d: "float32 (- (1/4) - 1/2) = - (1/4) - 1/2"
    using float32_minus_three_quarters by simp
  show ?thesis
    using float32_half float32_minus_quarter d
      interpolate_endpoints_float32 [of "[[[- (1/4)]], [[- (1/4)]]]" "[[[1/2]], [[1/2]]]" "[0, 1]" 0]
      interpolate_endpoints_float32 [of "[[[- (1/4)]], [[- (1/4)]]]" "[[[1/2]], [[1/2]]]" "[0, 1]" 1]
    by simp
qed

text \<open>
  C9, as stated, fails at the coefficient 1: on float32 values the subtraction rounds.
  With the real value \<open>0.3\<close> and the fake value \<open>-0.9\<close> as float32 holds them,
  \<open>10066330 / 2^25\<close> and \<open>-15099494 / 2^24\<close>, the difference \<open>-40265318 / 2^25\<close> lies
  half-way between two floats and rounds to \<open>-10066330 / 2^23\<close>; the product with 1 is
  exact, and the sum with the real value is \<open>-15099495 / 2^24\<close>, the float next to the
  fake value.
\<close>

theorem interpolate_misses_fake_example:
  "float32 (10066330 / 2^25) = 10066330 / 2^25
   \<and> float32 (- (15099494 / 2^24)) = - (15099494 / 2^24)
   \<and> interpolate [[[10066330 / 2^25]]] [[[- (15099494 / 2^24)]]] [1] ! 0 = [[- (15099495 / 2^24)]]
   \<and> interpolate [[[10066330 / 2^25]]] [[[- (15099494 / 2^24)]]] [1] ! 0 \<noteq> [[[- (15099494 / 2^24)]]] ! 0"
proof -
  have i: "interpolate [[[10066330 / 2^25]]] [[[- (15099494 / 2^24)]]] [1] = [[[- (15099495 / 2^24)]]]"
    unfolding interpolate_def Let_def
    by (simp only: list.map zip_Cons_Cons zip_Nil prod.case float32_difference_tie
          float32_product_exact float32_sum_off)
  show ?thesis
    unfolding i using float32_three_tenths float32_minus_nine_tenths by simp
qed

text \<open>
  C10. When the loss variant is none of dcgan, lsgan, wgan and wgan-gp, the optimizer
  selection raises \<open>NotImplementedError\<close> and \<open>train\<close> fails at startup, before its
  epoch loop; the error it fails with is that \<open>NotImplementedError\<close> whenever the file
  name batches are not empty and the models could be built.
\<close>

theorem unknown_loss_fails_at_startup:
  assumes "wavegan_loss a \<notin> {''dcgan'', ''lsgan'', ''wgan'', ''wgan-gp''}"
  shows "make_optimizers a = Inl NotImplementedError
       \<and> (\<exists>e. train E a rng = Startup_failure e
            \<and> (name_batch_set_len E \<noteq> 0 \<and> build_models E a = Inr () \<longrightarrow> e = NotImplementedError))"
proof -
  have m: "make_optimizers a = Inl NotImplementedError"
    using assms by (simp add: make_optimizers_def)
  then show ?thesis
    by (auto simp: train_def split: sum.splits)
qed

theorem unknown_loss_fails_at_startup_witness:
  "wavegan_loss (scenario_args ''hinge'' False) \<notin> {''dcgan'', ''lsgan'', ''wgan'', ''wgan-gp''}
   \<and> make_optimizers (scenario_args ''hinge'' False) = Inl NotImplementedError
   \<and> train scenario_env (scenario_args ''hinge'' False) (\<lambda>k. 1/4) = Startup_failure NotImplementedError"
proof -
  have h: "wavegan_loss (scenario_args ''hinge'' False) \<notin> {''dcgan'', ''lsgan'', ''wgan'', ''wgan-gp''}"
    by (simp add: scenario_args_def)
  have n: "name_batch_set_len scenario_env \<noteq> 0" by (simp add: scenario_env_def)
  show ?thesis
    using h n scenario_build [of "''hinge''"]
      unknown_loss_fails_at_startup [OF h, of scenario_env "\<lambda>k. 1/4"]
    by auto
qed

end
